theory Spec2Isabelle
  imports Main
begin

section \<open>CloudMart API: exceptions and replies\<close>

text \<open>
  The exceptions a Cosmos container call can raise, as far as the handlers of
  \<^verbatim>\<open>main.py\<close> tell them apart. \<open>CosmosResourceExistsError\<close> and
  \<open>CosmosResourceNotFoundError\<close> are subclasses of \<open>CosmosHttpResponseError\<close>;
  \<open>ServiceRequestError\<close> (the transport could not reach the account) is not, and
  neither is Python's own \<open>IndexError\<close>.
\<close>

datatype exn =
    CosmosHttpResponseError
  | CosmosResourceExistsError
  | CosmosResourceNotFoundError
  | ServiceRequestError
  | IndexError

text \<open>\<^verbatim>\<open>isinstance(e, exceptions.CosmosHttpResponseError)\<close>\<close>

fun is_CosmosHttpResponseError :: "exn \<Rightarrow> bool" where
  "is_CosmosHttpResponseError CosmosHttpResponseError = True"
| "is_CosmosHttpResponseError CosmosResourceExistsError = True"
| "is_CosmosHttpResponseError CosmosResourceNotFoundError = True"
| "is_CosmosHttpResponseError ServiceRequestError = False"
| "is_CosmosHttpResponseError IndexError = False"

text \<open>\<^verbatim>\<open>str(e)\<close>. The SDK's message text is not part of the repository; the model
  takes the name of the exception's class as its text, so only the shape of an error
  payload is meaningful, not its wording.\<close>

fun str_exn :: "exn \<Rightarrow> string" where
  "str_exn CosmosHttpResponseError = ''CosmosHttpResponseError''"
| "str_exn CosmosResourceExistsError = ''CosmosResourceExistsError''"
| "str_exn CosmosResourceNotFoundError = ''CosmosResourceNotFoundError''"
| "str_exn ServiceRequestError = ''ServiceRequestError''"
| "str_exn IndexError = ''list index out of range''"

text \<open>
  What a route handler hands back to the framework: a JSON body, the object
  \<^verbatim>\<open>{"message": m}\<close>, the object \<^verbatim>\<open>{"error": s}\<close> (both sent with status 200),
  a raised \<open>HTTPException\<close> with its status code and detail, or an exception that no
  \<^verbatim>\<open>except\<close> clause of the handler caught.
\<close>

datatype 'a reply =
    Body 'a
  | Message string
  | Error_payload string
  | HTTPException nat string
  | Unhandled exn

section \<open>Documents\<close>

text \<open>
  A product document. The price is the decimal literal of the source in cents
  (\<^verbatim>\<open>199.99\<close> is \<open>19999\<close>). The handlers read \<^verbatim>\<open>image\<close> and \<^verbatim>\<open>category\<close>
  with \<^verbatim>\<open>.get\<close> and a default, so both may be absent.
\<close>

record product =
  p_id :: string
  p_name :: string
  p_description :: string
  p_category :: "string option"
  p_price :: int
  p_stock :: int
  p_image :: "string option"

text \<open>A document of the \<^verbatim>\<open>cart\<close> container.\<close>

record cart_doc =
  cart_id :: string
  cart_user_id :: string
  cart_product_id :: string
  cart_quantity :: int

text \<open>The request body \<^verbatim>\<open>CartItem\<close>: \<^verbatim>\<open>product_id: str\<close>, \<^verbatim>\<open>quantity: int = 1\<close>.\<close>

record CartItem =
  product_id :: string
  quantity :: int

record order_line =
  line_product_id :: string
  line_quantity :: int

record order_doc =
  order_id :: string
  order_user_id :: string
  order_items :: "order_line list"
  order_status :: string
  order_created_at :: string

text \<open>One element of the list that \<^verbatim>\<open>get_cart\<close> returns.\<close>

record cart_line =
  e_id :: string
  e_name :: string
  e_price :: int
  e_quantity :: int
  e_image :: string
  e_category :: string

section \<open>The document store\<close>

text \<open>
  A container client: the documents it holds, in the order a query returns them, and
  the exception its calls raise while the account cannot be reached or answers with
  an error (\<open>None\<close>: the calls go through).
\<close>

record 'd container =
  docs :: "'d list"
  fault :: "exn option"

text \<open>\<^verbatim>\<open>list(container.query_items(query, parameters, ...))\<close> with the \<^verbatim>\<open>WHERE\<close>
  clause as a predicate.\<close>

definition query_items :: "('d \<Rightarrow> bool) \<Rightarrow> 'd container \<Rightarrow> exn + 'd list" where
  "query_items P c =
     (case fault c of
        Some e \<Rightarrow> Inl e
      | None \<Rightarrow> Inr (filter P (docs c)))"

text \<open>\<^verbatim>\<open>container.create_item(d)\<close>: a conflict when the id is taken.\<close>

definition create_item :: "('d \<Rightarrow> string) \<Rightarrow> 'd \<Rightarrow> 'd container \<Rightarrow> exn + 'd container" where
  "create_item idf d c =
     (case fault c of
        Some e \<Rightarrow> Inl e
      | None \<Rightarrow>
          if idf d \<in> set (map idf (docs c)) then Inl CosmosResourceExistsError
          else Inr (c\<lparr>docs := docs c @ [d]\<rparr>))"

text \<open>\<^verbatim>\<open>container.upsert_item(d)\<close>: replace the document of that id, or insert.\<close>

definition upsert_item :: "('d \<Rightarrow> string) \<Rightarrow> 'd \<Rightarrow> 'd container \<Rightarrow> exn + 'd container" where
  "upsert_item idf d c =
     (case fault c of
        Some e \<Rightarrow> Inl e
      | None \<Rightarrow>
          if idf d \<in> set (map idf (docs c))
          then Inr (c\<lparr>docs := map (\<lambda>x. if idf x = idf d then d else x) (docs c)\<rparr>)
          else Inr (c\<lparr>docs := docs c @ [d]\<rparr>))"

text \<open>\<^verbatim>\<open>container.delete_item(i, partition_key=pk)\<close>: the document of id \<open>i\<close> in the
  logical partition \<open>pk\<close>; not found is an error.\<close>

definition delete_item ::
  "('d \<Rightarrow> string) \<Rightarrow> ('d \<Rightarrow> string) \<Rightarrow> string \<Rightarrow> string \<Rightarrow> 'd container \<Rightarrow> exn + 'd container" where
  "delete_item idf pkf i pk c =
     (case fault c of
        Some e \<Rightarrow> Inl e
      | None \<Rightarrow>
          if list_ex (\<lambda>d. idf d = i \<and> pkf d = pk) (docs c)
          then Inr (c\<lparr>docs := filter (\<lambda>d. \<not> (idf d = i \<and> pkf d = pk)) (docs c)\<rparr>)
          else Inl CosmosResourceNotFoundError)"

text \<open>The module's globals \<^verbatim>\<open>products_container\<close>, \<^verbatim>\<open>cart_container\<close> and
  \<^verbatim>\<open>orders_container\<close>: \<open>None\<close> until \<^verbatim>\<open>init_cosmos\<close> has set them.\<close>

record app =
  products_container :: "product container option"
  cart_container :: "cart_doc container option"
  orders_container :: "order_doc container option"

definition DEFAULT_USER :: string where
  "DEFAULT_USER = ''demo_user''"

section \<open>Catalog routes\<close>

text \<open>\<^verbatim>\<open>s.startswith(p)\<close>\<close>

definition startswith :: "string \<Rightarrow> string \<Rightarrow> bool" where
  "startswith s p = (take (length p) s = p)"

text \<open>Cosmos \<^verbatim>\<open>CONTAINS(s, q)\<close>: \<open>q\<close> occurs in \<open>s\<close>, case-sensitively.\<close>

fun contains :: "string \<Rightarrow> string \<Rightarrow> bool" where
  "contains [] q = (q = [])"
| "contains (c # s) q = (startswith (c # s) q \<or> contains s q)"

text \<open>\<^verbatim>\<open>GET /api/v1/products\<close>\<close>

definition list_products :: "string option \<Rightarrow> app \<Rightarrow> product list reply" where
  "list_products category st =
     (case products_container st of
        None \<Rightarrow> Body []
      | Some pc \<Rightarrow>
          (case (if category \<noteq> None \<and> category \<noteq> Some []
                 then query_items (\<lambda>c. p_category c = category) pc
                 else query_items (\<lambda>c. True) pc) of
             Inl e \<Rightarrow> Body []
           | Inr items \<Rightarrow> Body items))"

text \<open>\<^verbatim>\<open>GET /api/v1/search\<close>\<close>

definition search_products :: "string \<Rightarrow> app \<Rightarrow> product list reply" where
  "search_products q st =
     (case products_container st of
        None \<Rightarrow> Body []
      | Some pc \<Rightarrow>
          (case query_items
                  (\<lambda>c. contains (p_name c) q \<or>
                       (case p_category c of None \<Rightarrow> False | Some cat \<Rightarrow> contains cat q)) pc of
             Inl e \<Rightarrow> Body []
           | Inr items \<Rightarrow> Body items))"

text \<open>\<^verbatim>\<open>GET /api/v1/products/{product_id}\<close>. The \<^verbatim>\<open>except\<close> clause catches
  \<open>CosmosHttpResponseError\<close> only; the 404 raised inside the \<^verbatim>\<open>try\<close> is an
  \<open>HTTPException\<close> and passes through it.\<close>

definition get_product :: "string \<Rightarrow> app \<Rightarrow> product reply" where
  "get_product pid st =
     (case products_container st of
        None \<Rightarrow> HTTPException 503 ''Database not available''
      | Some pc \<Rightarrow>
          (case query_items (\<lambda>c. p_id c = pid) pc of
             Inl e \<Rightarrow>
               if is_CosmosHttpResponseError e
               then HTTPException 404 ''Product not found''
               else Unhandled e
           | Inr items \<Rightarrow>
               (case items of
                  p # _ \<Rightarrow> Body p
                | [] \<Rightarrow> HTTPException 404 ''Product not found'')))"

text \<open>\<^verbatim>\<open>GET /api/v1/categories\<close>: \<^verbatim>\<open>SELECT DISTINCT c.category\<close> gives one object per
  distinct value, and an empty object for the documents without the field, on which
  \<^verbatim>\<open>item["category"]\<close> raises \<open>KeyError\<close>; \<^verbatim>\<open>except Exception\<close> catches it.\<close>

definition get_categories :: "app \<Rightarrow> string list reply" where
  "get_categories st =
     (case products_container st of
        None \<Rightarrow> Body []
      | Some pc \<Rightarrow>
          (case query_items (\<lambda>c. True) pc of
             Inl e \<Rightarrow> Body []
           | Inr items \<Rightarrow>
               if list_ex (\<lambda>c. p_category c = None) items then Body []
               else Body (remdups (map (\<lambda>c. the (p_category c)) items))))"

section \<open>Seeding\<close>

text \<open>The demo catalog of \<^verbatim>\<open>seed_products\<close>. The \<^verbatim>\<open>image\<close> strings are emoji, written
  here as their UTF-8 bytes.\<close>

definition products :: "product list" where
  "products =
    [\<lparr>p_id = ''1'', p_name = ''Wireless Headphones Pro'',
      p_description = ''Premium noise-cancelling wireless headphones with 30hr battery'',
      p_category = Some ''Electronics'', p_price = 19999, p_stock = 50,
      p_image = Some [CHR 0xF0, CHR 0x9F, CHR 0x8E, CHR 0xA7]\<rparr>,
     \<lparr>p_id = ''2'', p_name = ''Smart Watch Elite'',
      p_description = ''Advanced fitness tracking smartwatch with GPS'',
      p_category = Some ''Electronics'', p_price = 29999, p_stock = 30,
      p_image = Some [CHR 0xE2, CHR 0x8C, CHR 0x9A]\<rparr>,
     \<lparr>p_id = ''3'', p_name = ''Running Shoes X1'',
      p_description = ''Lightweight breathable running shoes'',
      p_category = Some ''Sports'', p_price = 8999, p_stock = 100,
      p_image = Some [CHR 0xF0, CHR 0x9F, CHR 0x91, CHR 0x9F]\<rparr>,
     \<lparr>p_id = ''4'', p_name = ''Laptop Backpack Pro'',
      p_description = ''Water-resistant 15.6 inch laptop backpack'',
      p_category = Some ''Accessories'', p_price = 4999, p_stock = 75,
      p_image = Some [CHR 0xF0, CHR 0x9F, CHR 0x8E, CHR 0x92]\<rparr>,
     \<lparr>p_id = ''5'', p_name = ''Coffee Maker Deluxe'',
      p_description = ''12-cup programmable coffee maker'',
      p_category = Some ''Home'', p_price = 7999, p_stock = 40,
      p_image = Some [CHR 0xE2, CHR 0x98, CHR 0x95]\<rparr>,
     \<lparr>p_id = ''6'', p_name = ''Yoga Mat Premium'',
      p_description = ''Extra thick eco-friendly yoga mat'',
      p_category = Some ''Sports'', p_price = 3599, p_stock = 60,
      p_image = Some [CHR 0xF0, CHR 0x9F, CHR 0xA7, CHR 0x98]\<rparr>,
     \<lparr>p_id = ''7'', p_name = ''Bluetooth Speaker'',
      p_description = ''Portable waterproof bluetooth speaker'',
      p_category = Some ''Electronics'', p_price = 5999, p_stock = 45,
      p_image = Some [CHR 0xF0, CHR 0x9F, CHR 0x94, CHR 0x8A]\<rparr>,
     \<lparr>p_id = ''8'', p_name = ''Desk Lamp LED'',
      p_description = ''Adjustable LED desk lamp with USB port'',
      p_category = Some ''Home'', p_price = 2999, p_stock = 80,
      p_image = Some [CHR 0xF0, CHR 0x9F, CHR 0x92, CHR 0xA1]\<rparr>]"

text \<open>The loop of \<^verbatim>\<open>seed_products\<close>: a conflict on an id is passed over, any other
  exception leaves the loop with what was created so far.\<close>

fun seed_loop :: "product list \<Rightarrow> product container \<Rightarrow> exn option \<times> product container" where
  "seed_loop [] c = (None, c)"
| "seed_loop (p # ps) c =
     (case create_item p_id p c of
        Inl e \<Rightarrow> if e = CosmosResourceExistsError then seed_loop ps c else (Some e, c)
      | Inr c' \<Rightarrow> seed_loop ps c')"

definition seed_products :: "product container \<Rightarrow> exn option \<times> product container" where
  "seed_products c = seed_loop products c"

text \<open>\<^verbatim>\<open>init_cosmos\<close>, given the two environment variables and what the account
  answers: the globals after the call, and the exception that leaves the function, if
  any. Without the variables the globals stay \<open>None\<close>. The \<^verbatim>\<open>CosmosClient\<close>
  constructor is called outside the \<^verbatim>\<open>try\<close>: when it raises (\<open>Inl e\<close>), the exception
  leaves \<^verbatim>\<open>init_cosmos\<close> and the globals stay \<open>None\<close>. Otherwise the catalog is seeded
  when the query for all products returns nothing, and every exception of the query or
  of the seeding is swallowed.\<close>

definition init_cosmos ::
  "string \<Rightarrow> string \<Rightarrow>
   exn + product container \<times> cart_doc container \<times> order_doc container \<Rightarrow>
   exn option \<times> app" where
  "init_cosmos COSMOS_ENDPOINT COSMOS_KEY account =
     (if COSMOS_ENDPOINT = [] \<or> COSMOS_KEY = []
      then (None,
            \<lparr>products_container = None, cart_container = None, orders_container = None\<rparr>)
      else
        (case account of
           Inl e \<Rightarrow>
             (Some e,
              \<lparr>products_container = None, cart_container = None, orders_container = None\<rparr>)
         | Inr (pc, cc, oc) \<Rightarrow>
             (None,
              \<lparr>products_container =
                 Some (case query_items (\<lambda>c. True) pc of
                         Inl e \<Rightarrow> pc
                       | Inr items \<Rightarrow>
                           if length items = 0 then snd (seed_products pc) else pc),
               cart_container = Some cc,
               orders_container = Some oc\<rparr>)))"

section \<open>Token service\<close>

text \<open>The claim set of a token: \<^verbatim>\<open>sub\<close>, and \<^verbatim>\<open>exp\<close> in seconds since the epoch (the
  library stores the expiry \<^verbatim>\<open>datetime\<close> as whole seconds).\<close>

record claims =
  claim_sub :: "string option"
  claim_exp :: "int option"

definition DEMO_USERNAME :: string where
  "DEMO_USERNAME = ''demo''"

definition DEMO_PASSWORD :: string where
  "DEMO_PASSWORD = ''demo123''"

text \<open>The default of \<^verbatim>\<open>JWT_SECRET_KEY\<close> when the environment does not set it.\<close>

definition JWT_SECRET_KEY :: string where
  "JWT_SECRET_KEY = ''cloudmart-dev-secret-key''"

definition ACCESS_TOKEN_EXPIRE_MINUTES :: int where
  "ACCESS_TOKEN_EXPIRE_MINUTES = 60"

text \<open>The exceptions of \<^verbatim>\<open>jose.jwt.decode\<close>; the last two are subclasses of the first,
  so \<^verbatim>\<open>except JWTError\<close> catches all three.\<close>

datatype jwt_error = JWTError | ExpiredSignatureError | JWTClaimsError

text \<open>
  \<^verbatim>\<open>jose.jwt\<close> is a library, not part of the repository. Its HS256 compact
  serialisation enters the model as two functions: \<open>sign claims key\<close> is the token
  string of \<^verbatim>\<open>jwt.encode\<close>, and \<open>verify token key\<close> is the claim set of a well-formed
  token whose signature matches the key, \<open>None\<close> for any other string. On top of
  that \<^verbatim>\<open>jwt.decode\<close> rejects a token whose \<^verbatim>\<open>exp\<close> lies before the current time.
\<close>

definition jwt_encode :: "(claims \<Rightarrow> string \<Rightarrow> string) \<Rightarrow> claims \<Rightarrow> string \<Rightarrow> string" where
  "jwt_encode sign to_encode key = sign to_encode key"

definition jwt_decode ::
  "(string \<Rightarrow> string \<Rightarrow> claims option) \<Rightarrow> int \<Rightarrow> string \<Rightarrow> string \<Rightarrow> jwt_error + claims" where
  "jwt_decode verify utcnow token key =
     (case verify token key of
        None \<Rightarrow> Inl JWTError
      | Some payload \<Rightarrow>
          (case claim_exp payload of
             None \<Rightarrow> Inr payload
           | Some e \<Rightarrow> if e < utcnow then Inl ExpiredSignatureError else Inr payload))"

text \<open>\<^verbatim>\<open>create_access_token\<close>; \<open>expires_delta\<close> in seconds, and a zero \<^verbatim>\<open>timedelta\<close> is
  falsy, so \<^verbatim>\<open>expires_delta or timedelta(minutes=60)\<close> takes the default for it.\<close>

definition create_access_token ::
  "(claims \<Rightarrow> string \<Rightarrow> string) \<Rightarrow> int \<Rightarrow> claims \<Rightarrow> int option \<Rightarrow> string" where
  "create_access_token sign utcnow data expires_delta =
     (let expire = utcnow +
            (case expires_delta of
               Some d \<Rightarrow> if d \<noteq> 0 then d else ACCESS_TOKEN_EXPIRE_MINUTES * 60
             | None \<Rightarrow> ACCESS_TOKEN_EXPIRE_MINUTES * 60);
          to_encode = data\<lparr>claim_exp := Some expire\<rparr>
      in jwt_encode sign to_encode JWT_SECRET_KEY)"

text \<open>\<^verbatim>\<open>s.split(" ", 1)\<close>: at most one split, at the first space.\<close>

definition split1 :: "string \<Rightarrow> string list" where
  "split1 s =
     (case dropWhile (\<lambda>c. c \<noteq> CHR '' '') s of
        [] \<Rightarrow> [s]
      | _ # rest \<Rightarrow> [takeWhile (\<lambda>c. c \<noteq> CHR '' '') s, rest])"

text \<open>\<^verbatim>\<open>get_current_user\<close>, the dependency of every cart and order route. The 401 for
  a missing \<^verbatim>\<open>sub\<close> is raised inside the \<^verbatim>\<open>try\<close> and is not a \<open>JWTError\<close>.\<close>

definition get_current_user ::
  "(string \<Rightarrow> string \<Rightarrow> claims option) \<Rightarrow> int \<Rightarrow> string option \<Rightarrow> string reply" where
  "get_current_user verify utcnow authorization =
     (case authorization of
        None \<Rightarrow> HTTPException 401 ''Not authenticated''
      | Some a \<Rightarrow>
          if a = [] \<or> \<not> startswith a ''Bearer ''
          then HTTPException 401 ''Not authenticated''
          else
            (case split1 a of
               _ # token # _ \<Rightarrow>
                 (case jwt_decode verify utcnow token JWT_SECRET_KEY of
                    Inl e \<Rightarrow> HTTPException 401 ''Invalid or expired token''
                  | Inr payload \<Rightarrow>
                      (case claim_sub payload of
                         None \<Rightarrow> HTTPException 401 ''Invalid token payload''
                       | Some username \<Rightarrow> Body username))
             | _ \<Rightarrow> Unhandled IndexError))"

text \<open>\<^verbatim>\<open>POST /auth/login\<close>\<close>

definition auth_login ::
  "(claims \<Rightarrow> string \<Rightarrow> string) \<Rightarrow> int \<Rightarrow> string \<Rightarrow> string \<Rightarrow> string reply" where
  "auth_login sign utcnow username password =
     (if username \<noteq> DEMO_USERNAME \<or> password \<noteq> DEMO_PASSWORD
      then HTTPException 401 ''Invalid credentials''
      else Body (create_access_token sign utcnow
                   \<lparr>claim_sub = Some username, claim_exp = None\<rparr> None))"

section \<open>Cart routes\<close>

text \<open>The \<^verbatim>\<open>for item in items\<close> loop of \<^verbatim>\<open>get_cart\<close>: one product query per cart
  document; a document whose product is gone is skipped. The default image is the
  shopping-cart emoji, in UTF-8 bytes.\<close>

fun enrich :: "product container \<Rightarrow> cart_doc list \<Rightarrow> exn + cart_line list" where
  "enrich pc [] = Inr []"
| "enrich pc (item # items) =
     (case query_items (\<lambda>c. p_id c = cart_product_id item) pc of
        Inl e \<Rightarrow> Inl e
      | Inr product_items \<Rightarrow>
          (case product_items of
             [] \<Rightarrow> enrich pc items
           | product # _ \<Rightarrow>
               (case enrich pc items of
                  Inl e \<Rightarrow> Inl e
                | Inr enriched_cart \<Rightarrow>
                    Inr (\<lparr>e_id = p_id product,
                          e_name = p_name product,
                          e_price = p_price product,
                          e_quantity = cart_quantity item,
                          e_image = (case p_image product of
                                       Some i \<Rightarrow> i
                                     | None \<Rightarrow> [CHR 0xF0, CHR 0x9F, CHR 0x9B, CHR 0x92]),
                          e_category = (case p_category product of
                                          Some c \<Rightarrow> c
                                        | None \<Rightarrow> ''General'')\<rparr> # enriched_cart))))"

text \<open>\<^verbatim>\<open>GET /api/v1/cart\<close>. The query is by \<open>DEFAULT_USER\<close>, not by \<open>current_user\<close>, and
  the \<^verbatim>\<open>except\<close> clause returns \<^verbatim>\<open>{"error": str(e)}\<close>.\<close>

definition get_cart :: "string \<Rightarrow> app \<Rightarrow> cart_line list reply" where
  "get_cart current_user st =
     (case cart_container st of
        None \<Rightarrow> Body []
      | Some cc \<Rightarrow>
          (case products_container st of
             None \<Rightarrow> Body []
           | Some pc \<Rightarrow>
               (case query_items (\<lambda>c. cart_user_id c = DEFAULT_USER) cc of
                  Inl e \<Rightarrow> Error_payload (str_exn e)
                | Inr items \<Rightarrow>
                    (case enrich pc items of
                       Inl e \<Rightarrow> Error_payload (str_exn e)
                     | Inr enriched_cart \<Rightarrow> Body enriched_cart))))"

text \<open>\<^verbatim>\<open>POST /api/v1/cart/items\<close>; \<open>uuid4\<close> is the value of \<^verbatim>\<open>str(uuid.uuid4())\<close>, drawn
  only on the branch that creates a document.\<close>

definition add_to_cart :: "CartItem \<Rightarrow> string \<Rightarrow> string \<Rightarrow> app \<Rightarrow> unit reply \<times> app" where
  "add_to_cart item current_user uuid4 st =
     (case cart_container st of
        None \<Rightarrow> (Error_payload ''Database not available'', st)
      | Some cc \<Rightarrow>
          (case query_items
                  (\<lambda>c. cart_user_id c = DEFAULT_USER \<and> cart_product_id c = product_id item) cc of
             Inl e \<Rightarrow> (Error_payload (str_exn e), st)
           | Inr existing \<Rightarrow>
               (case (case existing of
                        cart_item # _ \<Rightarrow>
                          upsert_item cart_id (cart_item\<lparr>cart_quantity := quantity item\<rparr>) cc
                      | [] \<Rightarrow>
                          create_item cart_id
                            \<lparr>cart_id = uuid4,
                             cart_user_id = DEFAULT_USER,
                             cart_product_id = product_id item,
                             cart_quantity = quantity item\<rparr> cc) of
                  Inl e \<Rightarrow> (Error_payload (str_exn e), st)
                | Inr cc' \<Rightarrow> (Message ''Saved to Cosmos DB'', st\<lparr>cart_container := Some cc'\<rparr>))))"

text \<open>The loop \<^verbatim>\<open>for item in items: cart_container.delete_item(item["id"],
  partition_key=DEFAULT_USER)\<close>: an exception leaves the loop, and the documents deleted
  before it stay deleted.\<close>

fun delete_loop :: "cart_doc list \<Rightarrow> cart_doc container \<Rightarrow> exn option \<times> cart_doc container" where
  "delete_loop [] c = (None, c)"
| "delete_loop (item # items) c =
     (case delete_item cart_id cart_user_id (cart_id item) DEFAULT_USER c of
        Inl e \<Rightarrow> (Some e, c)
      | Inr c' \<Rightarrow> delete_loop items c')"

text \<open>\<^verbatim>\<open>DELETE /api/v1/cart/items/{product_id}\<close>\<close>

definition remove_from_cart :: "string \<Rightarrow> string \<Rightarrow> app \<Rightarrow> unit reply \<times> app" where
  "remove_from_cart pid current_user st =
     (case cart_container st of
        None \<Rightarrow> (Error_payload ''Database not available'', st)
      | Some cc \<Rightarrow>
          (case query_items
                  (\<lambda>c. cart_user_id c = DEFAULT_USER \<and> cart_product_id c = pid) cc of
             Inl e \<Rightarrow> (Error_payload (str_exn e), st)
           | Inr items \<Rightarrow>
               (case delete_loop items cc of
                  (Some e, cc') \<Rightarrow>
                    (Error_payload (str_exn e), st\<lparr>cart_container := Some cc'\<rparr>)
                | (None, cc') \<Rightarrow>
                    (Message ''Removed from Cosmos DB'', st\<lparr>cart_container := Some cc'\<rparr>))))"

section \<open>Order routes\<close>

text \<open>\<^verbatim>\<open>POST /api/v1/orders\<close>; \<open>uuid4\<close> is \<^verbatim>\<open>str(uuid.uuid4())\<close> and \<open>utcnow\<close> is
  \<^verbatim>\<open>datetime.utcnow().isoformat()\<close>. The order is built from whatever the cart query
  returns and created before the cart documents are deleted.\<close>

definition create_order :: "string \<Rightarrow> string \<Rightarrow> string \<Rightarrow> app \<Rightarrow> order_doc reply \<times> app" where
  "create_order current_user uuid4 utcnow st =
     (case orders_container st of
        None \<Rightarrow> (Error_payload ''Database not available'', st)
      | Some oc \<Rightarrow>
          (case cart_container st of
             None \<Rightarrow> (Error_payload ''Database not available'', st)
           | Some cc \<Rightarrow>
               (case query_items (\<lambda>c. cart_user_id c = DEFAULT_USER) cc of
                  Inl e \<Rightarrow> (Error_payload (str_exn e), st)
                | Inr cart_items \<Rightarrow>
                    (let order =
                       \<lparr>order_id = uuid4,
                        order_user_id = DEFAULT_USER,
                        order_items =
                          map (\<lambda>i. \<lparr>line_product_id = cart_product_id i,
                                     line_quantity = cart_quantity i\<rparr>) cart_items,
                        order_status = ''confirmed'',
                        order_created_at = utcnow\<rparr>
                     in case create_item order_id order oc of
                          Inl e \<Rightarrow> (Error_payload (str_exn e), st)
                        | Inr oc' \<Rightarrow>
                            (case delete_loop cart_items cc of
                               (Some e, cc') \<Rightarrow>
                                 (Error_payload (str_exn e),
                                  st\<lparr>orders_container := Some oc', cart_container := Some cc'\<rparr>)
                             | (None, cc') \<Rightarrow>
                                 (Body order,
                                  st\<lparr>orders_container := Some oc', cart_container := Some cc'\<rparr>))))))"

text \<open>\<^verbatim>\<open>GET /api/v1/orders\<close>\<close>

definition get_orders :: "string \<Rightarrow> app \<Rightarrow> order_doc list reply" where
  "get_orders current_user st =
     (case orders_container st of
        None \<Rightarrow> Body []
      | Some oc \<Rightarrow>
          (case query_items (\<lambda>c. order_user_id c = DEFAULT_USER) oc of
             Inl e \<Rightarrow> Body []
           | Inr items \<Rightarrow> Body items))"

section \<open>Example stores\<close>

text \<open>The state of the process when the environment variables are not set.\<close>

definition no_database :: app where
  "no_database =
     \<lparr>products_container = None, cart_container = None, orders_container = None\<rparr>"

text \<open>A seeded catalog, an empty cart and no orders, all reachable.\<close>

definition empty_shop :: app where
  "empty_shop =
     \<lparr>products_container = Some \<lparr>docs = products, fault = None\<rparr>,
      cart_container = Some \<lparr>docs = [], fault = None\<rparr>,
      orders_container = Some \<lparr>docs = [], fault = None\<rparr>\<rparr>"

text \<open>The same containers while the account cannot be reached.\<close>

definition outage :: app where
  "outage =
     \<lparr>products_container = Some \<lparr>docs = products, fault = Some ServiceRequestError\<rparr>,
      cart_container = Some \<lparr>docs = [], fault = Some ServiceRequestError\<rparr>,
      orders_container = Some \<lparr>docs = [], fault = Some ServiceRequestError\<rparr>\<rparr>"

text \<open>The same containers while the account answers every call with an error.\<close>

definition cosmos_error :: app where
  "cosmos_error =
     \<lparr>products_container = Some \<lparr>docs = products, fault = Some CosmosHttpResponseError\<rparr>,
      cart_container = Some \<lparr>docs = [], fault = Some CosmosHttpResponseError\<rparr>,
      orders_container = Some \<lparr>docs = [], fault = Some CosmosHttpResponseError\<rparr>\<rparr>"

text \<open>A cart with three lines of the shared user, the last for a product that is not
  in the catalog, and one line of another user.\<close>

definition sample_cart :: "cart_doc container" where
  "sample_cart =
     \<lparr>docs =
        [\<lparr>cart_id = ''c-1'', cart_user_id = ''demo_user'', cart_product_id = ''3'',
          cart_quantity = 2\<rparr>,
         \<lparr>cart_id = ''c-2'', cart_user_id = ''someone_else'', cart_product_id = ''3'',
          cart_quantity = 7\<rparr>,
         \<lparr>cart_id = ''c-3'', cart_user_id = ''demo_user'', cart_product_id = ''8'',
          cart_quantity = 1\<rparr>,
         \<lparr>cart_id = ''c-4'', cart_user_id = ''demo_user'', cart_product_id = ''99'',
          cart_quantity = 4\<rparr>],
      fault = None\<rparr>"

definition busy_shop :: app where
  "busy_shop =
     \<lparr>products_container = Some \<lparr>docs = products, fault = None\<rparr>,
      cart_container = Some sample_cart,
      orders_container = Some \<lparr>docs = [], fault = None\<rparr>\<rparr>"

text \<open>A store whose orders container holds one order of another user and one of the
  shared user.\<close>

definition archive :: app where
  "archive =
     \<lparr>products_container = Some \<lparr>docs = products, fault = None\<rparr>,
      cart_container = Some \<lparr>docs = [], fault = None\<rparr>,
      orders_container = Some
        \<lparr>docs =
           [\<lparr>order_id = ''o-7'', order_user_id = ''someone_else'',
             order_items = [\<lparr>line_product_id = ''2'', line_quantity = 1\<rparr>],
             order_status = ''confirmed'', order_created_at = ''2023-12-31T10:00:00''\<rparr>,
            \<lparr>order_id = ''o-8'', order_user_id = ''demo_user'',
             order_items = [\<lparr>line_product_id = ''5'', line_quantity = 3\<rparr>],
             order_status = ''confirmed'', order_created_at = ''2023-12-31T11:00:00''\<rparr>],
         fault = None\<rparr>\<rparr>"

text \<open>A stand-in for the token library, for concrete runs: one token string that
  verifies to the claims of the demo user with expiry 4600, one that verifies to a claim
  set without \<^verbatim>\<open>sub\<close>, and every other string fails.\<close>

definition toy_sign :: "claims \<Rightarrow> string \<Rightarrow> string" where
  "toy_sign c key = ''header.payload.signature''"

definition toy_verify :: "string \<Rightarrow> string \<Rightarrow> claims option" where
  "toy_verify token key =
     (if key \<noteq> ''cloudmart-dev-secret-key'' then None
      else if token = ''header.payload.signature''
      then Some \<lparr>claim_sub = Some ''demo'', claim_exp = Some 4600\<rparr>
      else if token = ''header.nosub.signature''
      then Some \<lparr>claim_sub = None, claim_exp = None\<rparr>
      else None)"

section \<open>Facts about the store\<close>

lemma filter_id_single:
  "distinct (map idf xs) \<Longrightarrow> p \<in> set xs \<Longrightarrow> filter (\<lambda>c. idf c = idf p) xs = [p]"
proof (induction xs)
  case Nil
  then show ?case by simp
next
  case (Cons x xs)
  show ?case
  proof (cases "x = p")
    case True
    with Cons.prems have "idf p \<notin> idf ` set xs" by simp
    then have "\<forall>c \<in> set xs. idf c \<noteq> idf p" by (metis imageI)
    then have "filter (\<lambda>c. idf c = idf p) xs = []"
      by (simp add: filter_empty_conv)
    with True show ?thesis by simp
  next
    case False
    with Cons.prems have "p \<in> set xs" "idf x \<noteq> idf p" by auto
    with Cons show ?thesis by simp
  qed
qed

lemma distinct_seed_ids: "distinct (map p_id products)"
  by (simp add: products_def)

text \<open>Start-up against a reachable, empty account gives the seeded catalog, a second
  start-up finds it non-empty and leaves it as it is, and a start-up whose client
  constructor raises leaves the process without a database.\<close>

lemma init_cosmos_seeds:
  "init_cosmos ''https://account'' ''key''
     (Inr (\<lparr>docs = [], fault = None\<rparr>, \<lparr>docs = [], fault = None\<rparr>, \<lparr>docs = [], fault = None\<rparr>))
   = (None, empty_shop)"
  by (simp add: init_cosmos_def query_items_def seed_products_def products_def create_item_def
        empty_shop_def)

lemma init_cosmos_again:
  "init_cosmos ''https://account'' ''key''
     (Inr (\<lparr>docs = products, fault = None\<rparr>, \<lparr>docs = [], fault = None\<rparr>,
           \<lparr>docs = [], fault = None\<rparr>))
   = (None, empty_shop)"
  by (simp add: init_cosmos_def query_items_def empty_shop_def products_def)

lemma init_cosmos_unreachable:
  "init_cosmos ''https://account'' ''key'' (Inl ServiceRequestError) =
     (Some ServiceRequestError, no_database)"
  by (simp add: init_cosmos_def no_database_def)

text \<open>With distinct ids and every listed document in the user's partition, the delete
  loop raises nothing and removes exactly the listed documents.\<close>

lemma delete_loop_all:
  "fault c = None \<Longrightarrow> distinct (map cart_id (docs c)) \<Longrightarrow> distinct items \<Longrightarrow>
   set items \<subseteq> set (docs c) \<Longrightarrow> \<forall>i \<in> set items. cart_user_id i = DEFAULT_USER \<Longrightarrow>
   delete_loop items c = (None, c\<lparr>docs := filter (\<lambda>d. d \<notin> set items) (docs c)\<rparr>)"
proof (induction items arbitrary: c)
  case Nil
  then show ?case by simp
next
  case (Cons item items)
  let ?c' = "c\<lparr>docs := filter (\<lambda>d. d \<noteq> item) (docs c)\<rparr>"
  have mem: "item \<in> set (docs c)" and usr: "cart_user_id item = DEFAULT_USER"
    using Cons.prems by auto
  have inj: "inj_on cart_id (set (docs c))"
    using Cons.prems(2) by (simp add: distinct_map)
  have same: "\<And>d. d \<in> set (docs c) \<Longrightarrow>
      (\<not> (cart_id d = cart_id item \<and> cart_user_id d = DEFAULT_USER)) = (d \<noteq> item)"
    using inj mem usr by (auto dest: inj_onD)
  have flt: "filter (\<lambda>d. \<not> (cart_id d = cart_id item \<and> cart_user_id d = DEFAULT_USER)) (docs c)
             = filter (\<lambda>d. d \<noteq> item) (docs c)"
    using same by (intro filter_cong) (simp_all del: de_Morgan_conj)
  have ex: "list_ex (\<lambda>d. cart_id d = cart_id item \<and> cart_user_id d = DEFAULT_USER) (docs c)"
    using mem usr by (auto simp: list_ex_iff)
  have step: "delete_item cart_id cart_user_id (cart_id item) DEFAULT_USER c = Inr ?c'"
    using Cons.prems(1) ex flt by (simp add: delete_item_def)
  have "delete_loop items ?c' =
          (None, ?c'\<lparr>docs := filter (\<lambda>d. d \<notin> set items) (docs ?c')\<rparr>)"
  proof (rule Cons.IH)
    show "fault ?c' = None" using Cons.prems(1) by simp
    show "distinct (map cart_id (docs ?c'))"
      using Cons.prems(2) by (simp add: distinct_map_filter)
    show "distinct items" using Cons.prems(3) by simp
    show "set items \<subseteq> set (docs ?c')" using Cons.prems(3,4) by auto
    show "\<forall>i\<in>set items. cart_user_id i = DEFAULT_USER" using Cons.prems(5) by simp
  qed
  moreover have "filter (\<lambda>d. d \<notin> set items) (filter (\<lambda>d. d \<noteq> item) (docs c))
                 = filter (\<lambda>d. d \<notin> set (item # items)) (docs c)"
    by (auto intro: filter_cong)
  ultimately show ?case using step by simp
qed

lemma delete_loop_query:
  assumes "fault c = None" "distinct (map cart_id (docs c))"
    and "\<And>d. P d \<Longrightarrow> cart_user_id d = DEFAULT_USER"
  shows "delete_loop (filter P (docs c)) c = (None, c\<lparr>docs := filter (\<lambda>d. \<not> P d) (docs c)\<rparr>)"
proof -
  have d: "distinct (docs c)" using assms(2) by (simp add: distinct_map)
  have "delete_loop (filter P (docs c)) c =
          (None, c\<lparr>docs := filter (\<lambda>d. d \<notin> set (filter P (docs c))) (docs c)\<rparr>)"
    using assms d by (intro delete_loop_all) auto
  moreover have "filter (\<lambda>d. d \<notin> set (filter P (docs c))) (docs c) = filter (\<lambda>d. \<not> P d) (docs c)"
    by (rule filter_cong) auto
  ultimately show ?thesis by simp
qed

text \<open>One call of \<open>add_to_cart\<close> on a reachable cart with distinct ids and at most one
  entry for the product: it succeeds and leaves exactly one entry, of the new quantity.\<close>

lemma add_to_cart_step:
  assumes st: "cart_container st = Some cc" and ok: "fault cc = None"
    and ids: "distinct (map cart_id (docs cc))"
    and one: "length (filter (\<lambda>c. cart_user_id c = DEFAULT_USER \<and> cart_product_id c = pid)
                (docs cc)) \<le> 1"
    and fresh: "filter (\<lambda>c. cart_user_id c = DEFAULT_USER \<and> cart_product_id c = pid) (docs cc) = []
                \<longrightarrow> uuid4 \<notin> set (map cart_id (docs cc))"
  shows "\<exists>cc'. add_to_cart \<lparr>product_id = pid, quantity = q\<rparr> u uuid4 st =
                 (Message ''Saved to Cosmos DB'', st\<lparr>cart_container := Some cc'\<rparr>) \<and>
               fault cc' = None \<and> distinct (map cart_id (docs cc')) \<and>
               map cart_quantity
                 (filter (\<lambda>c. cart_user_id c = DEFAULT_USER \<and> cart_product_id c = pid) (docs cc'))
                 = [q] \<and>
               (filter (\<lambda>c. cart_user_id c = DEFAULT_USER \<and> cart_product_id c = pid) (docs cc) = []
                \<longrightarrow> docs cc' = docs cc @
                      [\<lparr>cart_id = uuid4, cart_user_id = DEFAULT_USER, cart_product_id = pid,
                        cart_quantity = q\<rparr>])"
proof -
  let ?P = "\<lambda>c. cart_user_id c = DEFAULT_USER \<and> cart_product_id c = pid"
  show ?thesis
  proof (cases "filter ?P (docs cc)")
    case Nil
    let ?new = "\<lparr>cart_id = uuid4, cart_user_id = DEFAULT_USER, cart_product_id = pid,
                 cart_quantity = q\<rparr>"
    let ?cc' = "cc\<lparr>docs := docs cc @ [?new]\<rparr>"
    from Nil fresh have fr: "uuid4 \<notin> set (map cart_id (docs cc))" by simp
    have run: "add_to_cart \<lparr>product_id = pid, quantity = q\<rparr> u uuid4 st =
            (Message ''Saved to Cosmos DB'', st\<lparr>cart_container := Some ?cc'\<rparr>)"
      using st ok Nil fr by (simp add: add_to_cart_def query_items_def create_item_def)
    have "distinct (map cart_id (docs ?cc'))" using ids fr by simp
    moreover have "map cart_quantity (filter ?P (docs ?cc')) = [q]" using Nil by simp
    ultimately show ?thesis using run ok by (intro exI [of _ ?cc']) simp
  next
    case (Cons x xs)
    with one have xs: "xs = []" by simp
    let ?x' = "x\<lparr>cart_quantity := q\<rparr>"
    let ?g = "\<lambda>y. if cart_id y = cart_id x then ?x' else y"
    let ?cc' = "cc\<lparr>docs := map ?g (docs cc)\<rparr>"
    have "x \<in> set (filter ?P (docs cc))" using Cons by simp
    then have mem: "x \<in> set (docs cc)" and px: "?P x" by auto
    have run: "add_to_cart \<lparr>product_id = pid, quantity = q\<rparr> u uuid4 st =
            (Message ''Saved to Cosmos DB'', st\<lparr>cart_container := Some ?cc'\<rparr>)"
      using st ok Cons mem by (simp add: add_to_cart_def query_items_def upsert_item_def)
    have idg: "map (cart_id \<circ> ?g) (docs cc) = map cart_id (docs cc)"
      by (rule map_cong) simp_all
    have inj: "inj_on cart_id (set (docs cc))" using ids by (simp add: distinct_map)
    have "filter ?P (map ?g (docs cc)) = map ?g (filter (?P \<circ> ?g) (docs cc))"
      by (simp add: filter_map)
    also have "filter (?P \<circ> ?g) (docs cc) = filter ?P (docs cc)"
    proof (rule filter_cong [OF refl])
      fix y assume "y \<in> set (docs cc)"
      then have "cart_id y = cart_id x \<Longrightarrow> y = x" using inj mem by (auto dest: inj_onD)
      then show "(?P \<circ> ?g) y = ?P y" using px by auto
    qed
    finally have "filter ?P (map ?g (docs cc)) = [?x']" using Cons xs by simp
    then have "map cart_quantity (filter ?P (docs ?cc')) = [q]" by simp
    moreover have "distinct (map cart_id (docs ?cc'))" by (simp add: idg ids)
    ultimately show ?thesis using run ok Cons by (intro exI [of _ ?cc']) simp
  qed
qed

text \<open>Every line that \<open>enrich\<close> builds comes from a cart document and the product
  that the document refers to.\<close>

lemma enrich_lines:
  "enrich pc items = Inr lines \<Longrightarrow>
   \<forall>l \<in> set lines. \<exists>item \<in> set items. \<exists>p \<in> set (docs pc).
      p_id p = cart_product_id item \<and> e_id l = p_id p \<and> e_quantity l = cart_quantity item"
proof (induction items arbitrary: lines)
  case Nil
  then show ?case by simp
next
  case (Cons item items)
  show ?case
  proof (cases "query_items (\<lambda>c. p_id c = cart_product_id item) pc")
    case (Inl e)
    with Cons.prems show ?thesis by simp
  next
    case (Inr product_items)
    show ?thesis
    proof (cases product_items)
      case Nil
      with Inr Cons.prems have "enrich pc items = Inr lines" by simp
      from Cons.IH [OF this] show ?thesis by auto
    next
      case (Cons product rest)
      with Inr Cons.prems obtain tl_lines where
        tl: "enrich pc items = Inr tl_lines" and
        ls: "lines = \<lparr>e_id = p_id product, e_name = p_name product, e_price = p_price product,
                      e_quantity = cart_quantity item,
                      e_image = (case p_image product of Some i \<Rightarrow> i
                                 | None \<Rightarrow> [CHR 0xF0, CHR 0x9F, CHR 0x9B, CHR 0x92]),
                      e_category = (case p_category product of Some c \<Rightarrow> c
                                    | None \<Rightarrow> ''General'')\<rparr> # tl_lines"
        by (auto split: sum.splits)
      from Inr Cons have "filter (\<lambda>c. p_id c = cart_product_id item) (docs pc) = product # rest"
        by (auto simp: query_items_def split: option.splits)
      then have "product \<in> set (filter (\<lambda>c. p_id c = cart_product_id item) (docs pc))"
        by (simp del: set_filter)
      then have pr: "product \<in> set (docs pc)" "p_id product = cart_product_id item" by auto
      from Cons.IH [OF tl] ls pr show ?thesis by auto
    qed
  qed
qed

lemma enrich_ignores_cart_id:
  "enrich pc (map (\<lambda>d. d\<lparr>cart_id := f d\<rparr>) items) = enrich pc items"
  by (induction items) (simp_all split: sum.splits list.splits)

text \<open>The same call seen from the store: the entry it leaves is one of \<open>DEFAULT_USER\<close>,
  whoever the caller is, and the documents of every other user stay as they were.\<close>

lemma add_to_cart_keyed:
  assumes st: "cart_container st = Some cc" and ok: "fault cc = None"
    and ids: "distinct (map cart_id (docs cc))"
    and one: "length (filter (\<lambda>c. cart_user_id c = DEFAULT_USER \<and> cart_product_id c = pid)
                (docs cc)) \<le> 1"
    and fresh: "uuid4 \<notin> set (map cart_id (docs cc))"
  shows "\<exists>cc'. add_to_cart \<lparr>product_id = pid, quantity = q\<rparr> u uuid4 st =
                 (Message ''Saved to Cosmos DB'', st\<lparr>cart_container := Some cc'\<rparr>) \<and>
               fault cc' = None \<and>
               map cart_quantity
                 (filter (\<lambda>c. cart_user_id c = DEFAULT_USER \<and> cart_product_id c = pid) (docs cc'))
                 = [q] \<and>
               filter (\<lambda>c. cart_user_id c \<noteq> DEFAULT_USER) (docs cc') =
               filter (\<lambda>c. cart_user_id c \<noteq> DEFAULT_USER) (docs cc)"
proof -
  let ?P = "\<lambda>c. cart_user_id c = DEFAULT_USER \<and> cart_product_id c = pid"
  let ?Q = "\<lambda>c. cart_user_id c \<noteq> DEFAULT_USER"
  show ?thesis
  proof (cases "filter ?P (docs cc)")
    case Nil
    let ?new = "\<lparr>cart_id = uuid4, cart_user_id = DEFAULT_USER, cart_product_id = pid,
                 cart_quantity = q\<rparr>"
    let ?cc' = "cc\<lparr>docs := docs cc @ [?new]\<rparr>"
    have run: "add_to_cart \<lparr>product_id = pid, quantity = q\<rparr> u uuid4 st =
            (Message ''Saved to Cosmos DB'', st\<lparr>cart_container := Some ?cc'\<rparr>)"
      using st ok Nil fresh by (simp add: add_to_cart_def query_items_def create_item_def)
    have "map cart_quantity (filter ?P (docs ?cc')) = [q]" using Nil by simp
    moreover have "filter ?Q (docs ?cc') = filter ?Q (docs cc)" by simp
    ultimately show ?thesis using run ok by (intro exI [of _ ?cc']) simp
  next
    case (Cons x xs)
    with one have xs: "xs = []" by simp
    let ?x' = "x\<lparr>cart_quantity := q\<rparr>"
    let ?g = "\<lambda>y. if cart_id y = cart_id x then ?x' else y"
    let ?cc' = "cc\<lparr>docs := map ?g (docs cc)\<rparr>"
    have "x \<in> set (filter ?P (docs cc))" using Cons by simp
    then have mem: "x \<in> set (docs cc)" and px: "?P x" by auto
    have run: "add_to_cart \<lparr>product_id = pid, quantity = q\<rparr> u uuid4 st =
            (Message ''Saved to Cosmos DB'', st\<lparr>cart_container := Some ?cc'\<rparr>)"
      using st ok Cons mem by (simp add: add_to_cart_def query_items_def upsert_item_def)
    have inj: "inj_on cart_id (set (docs cc))" using ids by (simp add: distinct_map)
    have same: "\<And>y. y \<in> set (docs cc) \<Longrightarrow> cart_id y = cart_id x \<Longrightarrow> y = x"
      using inj mem by (auto dest: inj_onD)
    have "filter ?P (map ?g (docs cc)) = map ?g (filter (?P \<circ> ?g) (docs cc))"
      by (simp add: filter_map)
    also have "filter (?P \<circ> ?g) (docs cc) = filter ?P (docs cc)"
    proof (rule filter_cong [OF refl])
      fix y assume "y \<in> set (docs cc)"
      then show "(?P \<circ> ?g) y = ?P y" using px same by auto
    qed
    finally have "filter ?P (map ?g (docs cc)) = [?x']" using Cons xs by simp
    then have qty: "map cart_quantity (filter ?P (docs ?cc')) = [q]" by simp
    have "filter ?Q (map ?g (docs cc)) = map ?g (filter (?Q \<circ> ?g) (docs cc))"
      by (simp add: filter_map)
    also have "filter (?Q \<circ> ?g) (docs cc) = filter ?Q (docs cc)"
    proof (rule filter_cong [OF refl])
      fix y assume "y \<in> set (docs cc)"
      then show "(?Q \<circ> ?g) y = ?Q y" using px same by auto
    qed
    also have "map ?g (filter ?Q (docs cc)) = filter ?Q (docs cc)"
    proof (rule map_idI)
      fix y assume "y \<in> set (filter ?Q (docs cc))"
      then have "y \<in> set (docs cc)" "?Q y" by auto
      then have "cart_id y \<noteq> cart_id x" using px same by auto
      then show "?g y = y" by simp
    qed
    finally have oth: "filter ?Q (docs ?cc') = filter ?Q (docs cc)" by simp
    show ?thesis using run ok qty oth by (intro exI [of _ ?cc']) simp
  qed
qed

text \<open>With a reachable catalog the enrichment loop raises nothing, and a cart document
  whose product is in the catalog gives a line of that product and quantity.\<close>

lemma enrich_total: "fault pc = None \<Longrightarrow> \<exists>lines. enrich pc items = Inr lines"
proof (induction items)
  case Nil
  then show ?case by simp
next
  case (Cons item items)
  then obtain rest where "enrich pc items = Inr rest" by auto
  with Cons.prems show ?case
    by (simp add: query_items_def split: list.splits)
qed

lemma enrich_member:
  assumes ok: "fault pc = None" and ids: "distinct (map p_id (docs pc))"
    and p: "p \<in> set (docs pc)"
  shows "x \<in> set items \<Longrightarrow> cart_product_id x = p_id p \<Longrightarrow>
         \<exists>lines. enrich pc items = Inr lines \<and>
                 list_ex (\<lambda>l. e_id l = p_id p \<and> e_quantity l = cart_quantity x) lines"
proof (induction items)
  case Nil
  then show ?case by simp
next
  case (Cons item items)
  obtain rest where rest: "enrich pc items = Inr rest"
    using enrich_total [OF ok] by blast
  show ?case
  proof (cases "x = item")
    case True
    have "filter (\<lambda>c. p_id c = cart_product_id item) (docs pc) = [p]"
      using True Cons.prems(2) filter_id_single [OF ids p] by simp
    then show ?thesis
      using ok rest True Cons.prems(2) by (simp add: query_items_def)
  next
    case False
    with Cons.prems have "x \<in> set items" by simp
    from Cons.IH [OF this Cons.prems(2)] rest
    have "list_ex (\<lambda>l. e_id l = p_id p \<and> e_quantity l = cart_quantity x) rest" by simp
    then show ?thesis
      using ok rest by (simp add: query_items_def split: list.splits)
  qed
qed

text \<open>The reply and the store after \<open>create_order\<close> on reachable containers.\<close>

lemma create_order_run:
  assumes "orders_container st = Some oc" and "cart_container st = Some cc"
    and "fault oc = None" and "fault cc = None"
    and "distinct (map cart_id (docs cc))"
    and "uuid4 \<notin> set (map order_id (docs oc))"
  shows "create_order u uuid4 utcnow st =
           (Body \<lparr>order_id = uuid4, order_user_id = DEFAULT_USER,
                   order_items = map (\<lambda>i. \<lparr>line_product_id = cart_product_id i,
                                             line_quantity = cart_quantity i\<rparr>)
                                  (filter (\<lambda>c. cart_user_id c = DEFAULT_USER) (docs cc)),
                   order_status = ''confirmed'', order_created_at = utcnow\<rparr>,
            st\<lparr>orders_container := Some (oc\<lparr>docs := docs oc @
                   [\<lparr>order_id = uuid4, order_user_id = DEFAULT_USER,
                     order_items = map (\<lambda>i. \<lparr>line_product_id = cart_product_id i,
                                               line_quantity = cart_quantity i\<rparr>)
                                    (filter (\<lambda>c. cart_user_id c = DEFAULT_USER) (docs cc)),
                     order_status = ''confirmed'', order_created_at = utcnow\<rparr>]\<rparr>),
               cart_container := Some (cc\<lparr>docs :=
                 filter (\<lambda>c. cart_user_id c \<noteq> DEFAULT_USER) (docs cc)\<rparr>)\<rparr>)"
proof -
  have del: "delete_loop (filter (\<lambda>c. cart_user_id c = DEFAULT_USER) (docs cc)) cc =
               (None, cc\<lparr>docs := filter (\<lambda>c. cart_user_id c \<noteq> DEFAULT_USER) (docs cc)\<rparr>)"
    using assms(4,5) by (intro delete_loop_query) simp_all
  show ?thesis
    using assms(1-4,6) del
    by (simp add: create_order_def query_items_def create_item_def Let_def)
qed

section \<open>Order placement on an empty cart\<close>

text \<open>
  C1. The claim: for a user whose cart holds no entry, placing an order is rejected with
  an EmptyCart error and no order is created or stored. The handler has no such check:
  on the reachable store with an empty cart, \<open>create_order\<close> answers with an order of
  no line items and the orders container holds that order afterwards.
\<close>

theorem create_order_empty_cart:
  "create_order ''demo'' ''o-1'' ''2024-01-01T00:00:00'' empty_shop =
     (Body \<lparr>order_id = ''o-1'', order_user_id = ''demo_user'', order_items = [],
             order_status = ''confirmed'', order_created_at = ''2024-01-01T00:00:00''\<rparr>,
      empty_shop\<lparr>orders_container :=
        Some \<lparr>docs = [\<lparr>order_id = ''o-1'', order_user_id = ''demo_user'', order_items = [],
                        order_status = ''confirmed'',
                        order_created_at = ''2024-01-01T00:00:00''\<rparr>],
              fault = None\<rparr>\<rparr>)"
  by (simp add: empty_shop_def create_order_def query_items_def create_item_def Let_def
        DEFAULT_USER_def)

section \<open>Store errors on the read routes\<close>

text \<open>
  C2. The claim: every read route (products, search, categories, cart, orders) answers
  with an empty sequence when the store query raises, and never with an error payload.
  While the account cannot be reached the four other routes do return the empty list,
  but \<open>get_cart\<close> returns the object \<^verbatim>\<open>{"error": str(e)}\<close>.
\<close>

theorem get_cart_store_error:
  "get_cart ''demo'' outage = Error_payload ''ServiceRequestError'' \<and>
   get_cart ''demo'' outage \<noteq> Body [] \<and>
   list_products None outage = Body [] \<and>
   search_products ''Pro'' outage = Body [] \<and>
   get_categories outage = Body [] \<and>
   get_orders ''demo'' outage = Body []"
  by (simp add: outage_def get_cart_def list_products_def search_products_def
        get_categories_def get_orders_def query_items_def)

section \<open>Quantities of cart entries\<close>

text \<open>
  C3. The claim: adding to the cart accepts positive quantities only, a quantity of zero
  or below is a caller error and no entry with such a quantity is stored. The request
  model declares \<^verbatim>\<open>quantity: int\<close> and the handler stores what it is given: with
  quantity 0, and with quantity -3, the call succeeds and the entry is in the cart.
\<close>

theorem add_to_cart_nonpositive_quantity:
  "add_to_cart \<lparr>product_id = ''1'', quantity = 0\<rparr> ''demo'' ''c-1'' empty_shop =
     (Message ''Saved to Cosmos DB'',
      empty_shop\<lparr>cart_container :=
        Some \<lparr>docs = [\<lparr>cart_id = ''c-1'', cart_user_id = ''demo_user'',
                        cart_product_id = ''1'', cart_quantity = 0\<rparr>], fault = None\<rparr>\<rparr>) \<and>
   add_to_cart \<lparr>product_id = ''1'', quantity = - 3\<rparr> ''demo'' ''c-1'' empty_shop =
     (Message ''Saved to Cosmos DB'',
      empty_shop\<lparr>cart_container :=
        Some \<lparr>docs = [\<lparr>cart_id = ''c-1'', cart_user_id = ''demo_user'',
                        cart_product_id = ''1'', cart_quantity = - 3\<rparr>], fault = None\<rparr>\<rparr>)"
  by (simp add: empty_shop_def add_to_cart_def query_items_def create_item_def DEFAULT_USER_def)

section \<open>Single-product lookup\<close>

text \<open>
  C7, as the code has it. \<open>get_product\<close> fails with 503 when the products container
  is not configured; it fails with 404 when the query raises a Cosmos HTTP error, and
  when the reachable store holds no product of the requested id; and for a product held
  by a reachable store with distinct ids it returns exactly that product.
\<close>

theorem get_product_outcomes:
  "(products_container st = None \<longrightarrow>
      get_product pid st = HTTPException 503 ''Database not available'') \<and>
   (products_container st = Some pc \<and> fault pc = Some e \<and> is_CosmosHttpResponseError e \<longrightarrow>
      get_product pid st = HTTPException 404 ''Product not found'') \<and>
   (products_container st = Some pc \<and> fault pc = None \<and> pid \<notin> set (map p_id (docs pc)) \<longrightarrow>
      get_product pid st = HTTPException 404 ''Product not found'') \<and>
   (products_container st = Some pc \<and> fault pc = None \<and> distinct (map p_id (docs pc)) \<and>
    p \<in> set (docs pc) \<longrightarrow>
      get_product (p_id p) st = Body p)"
proof (intro conjI impI)
  assume "products_container st = None"
  then show "get_product pid st = HTTPException 503 ''Database not available''"
    by (simp add: get_product_def)
next
  assume "products_container st = Some pc \<and> fault pc = Some e \<and> is_CosmosHttpResponseError e"
  then show "get_product pid st = HTTPException 404 ''Product not found''"
    by (simp add: get_product_def query_items_def)
next
  assume a: "products_container st = Some pc \<and> fault pc = None \<and> pid \<notin> set (map p_id (docs pc))"
  then have "filter (\<lambda>c. p_id c = pid) (docs pc) = []"
    by (auto simp: filter_empty_conv)
  with a show "get_product pid st = HTTPException 404 ''Product not found''"
    by (simp add: get_product_def query_items_def)
next
  assume a: "products_container st = Some pc \<and> fault pc = None \<and>
             distinct (map p_id (docs pc)) \<and> p \<in> set (docs pc)"
  then have "filter (\<lambda>c. p_id c = p_id p) (docs pc) = [p]"
    by (simp add: filter_id_single)
  with a show "get_product (p_id p) st = Body p"
    by (simp add: get_product_def query_items_def)
qed

text \<open>The four cases at concrete stores: no database, a Cosmos error, an unknown id, and
  the seeded product of id 8.\<close>

theorem get_product_outcomes_witness:
  "get_product ''8'' no_database = HTTPException 503 ''Database not available'' \<and>
   get_product ''8'' cosmos_error = HTTPException 404 ''Product not found'' \<and>
   get_product ''9'' empty_shop = HTTPException 404 ''Product not found'' \<and>
   get_product ''8'' empty_shop = Body (last products)"
proof -
  have none: "products_container no_database = None"
    by (simp add: no_database_def)
  have err: "products_container cosmos_error =
               Some \<lparr>docs = products, fault = Some CosmosHttpResponseError\<rparr> \<and>
             fault \<lparr>docs = products, fault = Some CosmosHttpResponseError\<rparr> =
               Some CosmosHttpResponseError \<and>
             is_CosmosHttpResponseError CosmosHttpResponseError"
    by (simp add: cosmos_error_def)
  have unknown: "products_container empty_shop = Some \<lparr>docs = products, fault = None\<rparr> \<and>
                 fault \<lparr>docs = products, fault = None\<rparr> = None \<and>
                 ''9'' \<notin> set (map p_id (docs \<lparr>docs = products, fault = None\<rparr>))"
    by (simp add: empty_shop_def products_def)
  have known: "products_container empty_shop = Some \<lparr>docs = products, fault = None\<rparr> \<and>
               fault \<lparr>docs = products, fault = None\<rparr> = None \<and>
               distinct (map p_id (docs \<lparr>docs = products, fault = None\<rparr>)) \<and>
               last products \<in> set (docs \<lparr>docs = products, fault = None\<rparr>)"
    by (simp add: empty_shop_def products_def)
  have id8: "p_id (last products) = ''8''"
    by (simp add: products_def)
  from none err unknown known id8
    get_product_outcomes [where st = no_database and pid = "''8''"]
    get_product_outcomes [where st = cosmos_error and pid = "''8''" and e = CosmosHttpResponseError
      and pc = "\<lparr>docs = products, fault = Some CosmosHttpResponseError\<rparr>"]
    get_product_outcomes [where st = empty_shop and pid = "''9''" and p = "last products"
      and pc = "\<lparr>docs = products, fault = None\<rparr>"]
  show ?thesis by simp
qed

text \<open>The claim as written has the lookup fail with 503 whenever the store is not
  reachable. With the container configured and the query raising, the answer is 404 for
  a Cosmos HTTP error, and the exception itself for a transport error.\<close>

theorem get_product_unreachable_counterexample:
  "get_product ''8'' cosmos_error = HTTPException 404 ''Product not found'' \<and>
   get_product ''8'' cosmos_error \<noteq> HTTPException 503 ''Database not available'' \<and>
   get_product ''8'' outage = Unhandled ServiceRequestError"
  by (simp add: cosmos_error_def outage_def get_product_def query_items_def)

section \<open>One cart for every principal\<close>

text \<open>
  C9. For any two usernames \<open>u1\<close> and \<open>u2\<close> that the tokens of two requests carry,
  every cart and order route gives the same reply and leaves the same store, because
  the storage key is the fixed \<open>DEFAULT_USER\<close>:
  \<^item> \<open>get_orders\<close> returns exactly the orders whose owner is \<open>DEFAULT_USER\<close>, and
    \<open>get_cart\<close> the enrichment of exactly the cart documents of \<open>DEFAULT_USER\<close>;
  \<^item> \<open>add_to_cart\<close> called by \<open>u1\<close> leaves one entry of \<open>DEFAULT_USER\<close> for the
    product, with the given quantity, leaves the documents of other users as they
    were, and the cart that \<open>u2\<close> reads afterwards shows a line of that product and
    quantity;
  \<^item> \<open>remove_from_cart\<close> called by \<open>u1\<close> deletes the entries of \<open>DEFAULT_USER\<close> for
    the product and no others;
  \<^item> \<open>create_order\<close> called by \<open>u1\<close> stores an order owned by \<open>DEFAULT_USER\<close>
    built from the cart documents of \<open>DEFAULT_USER\<close>, which \<open>u2\<close> finds at the end
    of the order list, deletes those documents only, and \<open>u2\<close> reads an empty cart.
\<close>

theorem shared_cart_independent_of_principal:
  "get_cart u1 st = get_cart u2 st \<and>
   add_to_cart item u1 uuid4 st = add_to_cart item u2 uuid4 st \<and>
   remove_from_cart pid u1 st = remove_from_cart pid u2 st \<and>
   create_order u1 uuid4 utcnow st = create_order u2 uuid4 utcnow st \<and>
   get_orders u1 st = get_orders u2 st \<and>
   (orders_container st = Some oc \<and> fault oc = None \<longrightarrow>
      get_orders u1 st = Body (filter (\<lambda>c. order_user_id c = DEFAULT_USER) (docs oc))) \<and>
   (cart_container st = Some cc \<and> fault cc = None \<and> products_container st = Some pc \<longrightarrow>
      get_cart u1 st =
        (case enrich pc (filter (\<lambda>c. cart_user_id c = DEFAULT_USER) (docs cc)) of
           Inl e \<Rightarrow> Error_payload (str_exn e)
         | Inr lines \<Rightarrow> Body lines)) \<and>
   (cart_container st = Some cc \<and> fault cc = None \<and> distinct (map cart_id (docs cc)) \<and>
    length (filter (\<lambda>c. cart_user_id c = DEFAULT_USER \<and> cart_product_id c = pid) (docs cc)) \<le> 1 \<and>
    uuid4 \<notin> set (map cart_id (docs cc)) \<longrightarrow>
      (case cart_container (snd (add_to_cart \<lparr>product_id = pid, quantity = q\<rparr> u1 uuid4 st)) of
         None \<Rightarrow> False
       | Some cc' \<Rightarrow>
           map cart_quantity
             (filter (\<lambda>c. cart_user_id c = DEFAULT_USER \<and> cart_product_id c = pid) (docs cc'))
             = [q] \<and>
           filter (\<lambda>c. cart_user_id c \<noteq> DEFAULT_USER) (docs cc') =
           filter (\<lambda>c. cart_user_id c \<noteq> DEFAULT_USER) (docs cc))) \<and>
   (cart_container st = Some cc \<and> fault cc = None \<and> distinct (map cart_id (docs cc)) \<and>
    length (filter (\<lambda>c. cart_user_id c = DEFAULT_USER \<and> cart_product_id c = p_id p)
      (docs cc)) \<le> 1 \<and>
    uuid4 \<notin> set (map cart_id (docs cc)) \<and>
    products_container st = Some pc \<and> fault pc = None \<and> distinct (map p_id (docs pc)) \<and>
    p \<in> set (docs pc) \<longrightarrow>
      (case get_cart u2 (snd (add_to_cart \<lparr>product_id = p_id p, quantity = q\<rparr> u1 uuid4 st)) of
         Body lines \<Rightarrow> list_ex (\<lambda>l. e_id l = p_id p \<and> e_quantity l = q) lines
       | _ \<Rightarrow> False)) \<and>
   (cart_container st = Some cc \<and> fault cc = None \<and> distinct (map cart_id (docs cc)) \<longrightarrow>
      cart_container (snd (remove_from_cart pid u1 st)) =
        Some (cc\<lparr>docs :=
          filter (\<lambda>c. \<not> (cart_user_id c = DEFAULT_USER \<and> cart_product_id c = pid)) (docs cc)\<rparr>)) \<and>
   (orders_container st = Some oc \<and> cart_container st = Some cc \<and> fault oc = None \<and>
    fault cc = None \<and> distinct (map cart_id (docs cc)) \<and>
    uuid4 \<notin> set (map order_id (docs oc)) \<longrightarrow>
      get_orders u2 (snd (create_order u1 uuid4 utcnow st)) =
        Body (filter (\<lambda>c. order_user_id c = DEFAULT_USER) (docs oc) @
              [\<lparr>order_id = uuid4, order_user_id = DEFAULT_USER,
                order_items = map (\<lambda>i. \<lparr>line_product_id = cart_product_id i,
                                          line_quantity = cart_quantity i\<rparr>)
                               (filter (\<lambda>c. cart_user_id c = DEFAULT_USER) (docs cc)),
                order_status = ''confirmed'', order_created_at = utcnow\<rparr>]) \<and>
      cart_container (snd (create_order u1 uuid4 utcnow st)) =
        Some (cc\<lparr>docs := filter (\<lambda>c. cart_user_id c \<noteq> DEFAULT_USER) (docs cc)\<rparr>) \<and>
      get_cart u2 (snd (create_order u1 uuid4 utcnow st)) = Body [])"
proof (intro conjI impI)
  show "get_cart u1 st = get_cart u2 st" by (simp add: get_cart_def)
  show "add_to_cart item u1 uuid4 st = add_to_cart item u2 uuid4 st" by (simp add: add_to_cart_def)
  show "remove_from_cart pid u1 st = remove_from_cart pid u2 st"
    by (simp add: remove_from_cart_def)
  show "create_order u1 uuid4 utcnow st = create_order u2 uuid4 utcnow st"
    by (simp add: create_order_def)
  show "get_orders u1 st = get_orders u2 st" by (simp add: get_orders_def)
next
  assume "orders_container st = Some oc \<and> fault oc = None"
  then show "get_orders u1 st = Body (filter (\<lambda>c. order_user_id c = DEFAULT_USER) (docs oc))"
    by (simp add: get_orders_def query_items_def)
next
  assume "cart_container st = Some cc \<and> fault cc = None \<and> products_container st = Some pc"
  then show "get_cart u1 st =
        (case enrich pc (filter (\<lambda>c. cart_user_id c = DEFAULT_USER) (docs cc)) of
           Inl e \<Rightarrow> Error_payload (str_exn e)
         | Inr lines \<Rightarrow> Body lines)"
    by (simp add: get_cart_def query_items_def)
next
  assume a: "cart_container st = Some cc \<and> fault cc = None \<and> distinct (map cart_id (docs cc)) \<and>
    length (filter (\<lambda>c. cart_user_id c = DEFAULT_USER \<and> cart_product_id c = pid) (docs cc)) \<le> 1 \<and>
    uuid4 \<notin> set (map cart_id (docs cc))"
  then have "\<exists>cc'. add_to_cart \<lparr>product_id = pid, quantity = q\<rparr> u1 uuid4 st =
                 (Message ''Saved to Cosmos DB'', st\<lparr>cart_container := Some cc'\<rparr>) \<and>
               fault cc' = None \<and>
               map cart_quantity
                 (filter (\<lambda>c. cart_user_id c = DEFAULT_USER \<and> cart_product_id c = pid) (docs cc'))
                 = [q] \<and>
               filter (\<lambda>c. cart_user_id c \<noteq> DEFAULT_USER) (docs cc') =
               filter (\<lambda>c. cart_user_id c \<noteq> DEFAULT_USER) (docs cc)"
    by (intro add_to_cart_keyed) simp_all
  then obtain cc' where
    "add_to_cart \<lparr>product_id = pid, quantity = q\<rparr> u1 uuid4 st =
                 (Message ''Saved to Cosmos DB'', st\<lparr>cart_container := Some cc'\<rparr>) \<and>
               fault cc' = None \<and>
               map cart_quantity
                 (filter (\<lambda>c. cart_user_id c = DEFAULT_USER \<and> cart_product_id c = pid) (docs cc'))
                 = [q] \<and>
               filter (\<lambda>c. cart_user_id c \<noteq> DEFAULT_USER) (docs cc') =
               filter (\<lambda>c. cart_user_id c \<noteq> DEFAULT_USER) (docs cc)" ..
  then show "case cart_container (snd (add_to_cart \<lparr>product_id = pid, quantity = q\<rparr> u1 uuid4 st)) of
         None \<Rightarrow> False
       | Some cc' \<Rightarrow>
           map cart_quantity
             (filter (\<lambda>c. cart_user_id c = DEFAULT_USER \<and> cart_product_id c = pid) (docs cc'))
             = [q] \<and>
           filter (\<lambda>c. cart_user_id c \<noteq> DEFAULT_USER) (docs cc') =
           filter (\<lambda>c. cart_user_id c \<noteq> DEFAULT_USER) (docs cc)"
    by simp
next
  let ?P = "\<lambda>c. cart_user_id c = DEFAULT_USER \<and> cart_product_id c = p_id p"
  assume a: "cart_container st = Some cc \<and> fault cc = None \<and> distinct (map cart_id (docs cc)) \<and>
    length (filter ?P (docs cc)) \<le> 1 \<and>
    uuid4 \<notin> set (map cart_id (docs cc)) \<and>
    products_container st = Some pc \<and> fault pc = None \<and> distinct (map p_id (docs pc)) \<and>
    p \<in> set (docs pc)"
  then have "\<exists>cc'. add_to_cart \<lparr>product_id = p_id p, quantity = q\<rparr> u1 uuid4 st =
                 (Message ''Saved to Cosmos DB'', st\<lparr>cart_container := Some cc'\<rparr>) \<and>
               fault cc' = None \<and>
               map cart_quantity (filter ?P (docs cc')) = [q] \<and>
               filter (\<lambda>c. cart_user_id c \<noteq> DEFAULT_USER) (docs cc') =
               filter (\<lambda>c. cart_user_id c \<noteq> DEFAULT_USER) (docs cc)"
    by (intro add_to_cart_keyed) simp_all
  then obtain cc' where
    "add_to_cart \<lparr>product_id = p_id p, quantity = q\<rparr> u1 uuid4 st =
                 (Message ''Saved to Cosmos DB'', st\<lparr>cart_container := Some cc'\<rparr>) \<and>
               fault cc' = None \<and>
               map cart_quantity (filter ?P (docs cc')) = [q] \<and>
               filter (\<lambda>c. cart_user_id c \<noteq> DEFAULT_USER) (docs cc') =
               filter (\<lambda>c. cart_user_id c \<noteq> DEFAULT_USER) (docs cc)" ..
  then have run: "add_to_cart \<lparr>product_id = p_id p, quantity = q\<rparr> u1 uuid4 st =
                 (Message ''Saved to Cosmos DB'', st\<lparr>cart_container := Some cc'\<rparr>)"
    and ok': "fault cc' = None"
    and qty: "map cart_quantity (filter ?P (docs cc')) = [q]"
    by blast+
  from qty obtain x where fx: "filter ?P (docs cc') = [x]" and qx: "cart_quantity x = q"
    by auto
  then have "x \<in> set (filter ?P (docs cc'))" by simp
  then have xin: "x \<in> set (filter (\<lambda>c. cart_user_id c = DEFAULT_USER) (docs cc'))"
    and px: "cart_product_id x = p_id p" by auto
  from a have okp: "fault pc = None" and idp: "distinct (map p_id (docs pc))"
    and pin: "p \<in> set (docs pc)" by simp_all
  from enrich_member [OF okp idp pin xin px]
  obtain lines where
    en: "enrich pc (filter (\<lambda>c. cart_user_id c = DEFAULT_USER) (docs cc')) = Inr lines"
    and ex: "list_ex (\<lambda>l. e_id l = p_id p \<and> e_quantity l = cart_quantity x) lines"
    by blast
  have "get_cart u2 (st\<lparr>cart_container := Some cc'\<rparr>) = Body lines"
    using a ok' en by (simp add: get_cart_def query_items_def)
  then show "case get_cart u2 (snd (add_to_cart \<lparr>product_id = p_id p, quantity = q\<rparr> u1 uuid4 st)) of
         Body lines \<Rightarrow> list_ex (\<lambda>l. e_id l = p_id p \<and> e_quantity l = q) lines
       | _ \<Rightarrow> False"
    using run ex qx by simp
next
  assume a: "cart_container st = Some cc \<and> fault cc = None \<and> distinct (map cart_id (docs cc))"
  let ?P = "\<lambda>c. cart_user_id c = DEFAULT_USER \<and> cart_product_id c = pid"
  have "delete_loop (filter ?P (docs cc)) cc = (None, cc\<lparr>docs := filter (\<lambda>d. \<not> ?P d) (docs cc)\<rparr>)"
    using a by (intro delete_loop_query) simp_all
  with a show "cart_container (snd (remove_from_cart pid u1 st)) =
        Some (cc\<lparr>docs := filter (\<lambda>c. \<not> ?P c) (docs cc)\<rparr>)"
    by (simp add: remove_from_cart_def query_items_def)
next
  assume a: "orders_container st = Some oc \<and> cart_container st = Some cc \<and> fault oc = None \<and>
    fault cc = None \<and> distinct (map cart_id (docs cc)) \<and>
    uuid4 \<notin> set (map order_id (docs oc))"
  let ?order = "\<lparr>order_id = uuid4, order_user_id = DEFAULT_USER,
                order_items = map (\<lambda>i. \<lparr>line_product_id = cart_product_id i,
                                          line_quantity = cart_quantity i\<rparr>)
                               (filter (\<lambda>c. cart_user_id c = DEFAULT_USER) (docs cc)),
                order_status = ''confirmed'', order_created_at = utcnow\<rparr>"
  let ?cc' = "cc\<lparr>docs := filter (\<lambda>c. cart_user_id c \<noteq> DEFAULT_USER) (docs cc)\<rparr>"
  let ?st' = "st\<lparr>orders_container := Some (oc\<lparr>docs := docs oc @ [?order]\<rparr>),
                 cart_container := Some ?cc'\<rparr>"
  have run: "create_order u1 uuid4 utcnow st = (Body ?order, ?st')"
    using a by (intro create_order_run) simp_all
  have "filter (\<lambda>c. cart_user_id c = DEFAULT_USER) (docs ?cc') = []"
    by (simp add: filter_empty_conv)
  then have gc: "get_cart u2 ?st' = Body []"
    using a by (simp add: get_cart_def query_items_def split: option.split)
  have go: "get_orders u2 ?st' =
        Body (filter (\<lambda>c. order_user_id c = DEFAULT_USER) (docs oc) @ [?order])"
    using a by (simp add: get_orders_def query_items_def)
  show "get_orders u2 (snd (create_order u1 uuid4 utcnow st)) =
        Body (filter (\<lambda>c. order_user_id c = DEFAULT_USER) (docs oc) @ [?order])"
    unfolding run using go by simp
  show "cart_container (snd (create_order u1 uuid4 utcnow st)) = Some ?cc'"
    unfolding run by simp
  show "get_cart u2 (snd (create_order u1 uuid4 utcnow st)) = Body []"
    unfolding run using gc by simp
qed


text \<open>One principal writes and another reads: alice adds product 1 and bob sees it in
  his cart; bob places the order of the sample cart and alice finds it among her
  orders and her cart empty; bob's removal empties alice's line for product 3 and
  leaves the line of the other user; and the order of the other user in the archive
  is not shown.\<close>

theorem shared_cart_independent_of_principal_witness:
  "get_cart ''bob''
     (snd (add_to_cart \<lparr>product_id = ''1'', quantity = 2\<rparr> ''alice'' ''c-1'' empty_shop)) =
     Body [\<lparr>e_id = ''1'', e_name = ''Wireless Headphones Pro'', e_price = 19999,
             e_quantity = 2, e_image = [CHR 0xF0, CHR 0x9F, CHR 0x8E, CHR 0xA7],
             e_category = ''Electronics''\<rparr>] \<and>
   cart_container
     (snd (add_to_cart \<lparr>product_id = ''1'', quantity = 2\<rparr> ''alice'' ''c-1'' empty_shop)) =
     Some \<lparr>docs = [\<lparr>cart_id = ''c-1'', cart_user_id = ''demo_user'', cart_product_id = ''1'',
                     cart_quantity = 2\<rparr>], fault = None\<rparr> \<and>
   get_orders ''alice'' (snd (create_order ''bob'' ''o-1'' ''2024-01-01T00:00:00'' busy_shop)) =
     Body [\<lparr>order_id = ''o-1'', order_user_id = ''demo_user'',
             order_items = [\<lparr>line_product_id = ''3'', line_quantity = 2\<rparr>,
                            \<lparr>line_product_id = ''8'', line_quantity = 1\<rparr>,
                            \<lparr>line_product_id = ''99'', line_quantity = 4\<rparr>],
             order_status = ''confirmed'', order_created_at = ''2024-01-01T00:00:00''\<rparr>] \<and>
   get_cart ''alice'' (snd (create_order ''bob'' ''o-1'' ''2024-01-01T00:00:00'' busy_shop)) =
     Body [] \<and>
   cart_container (snd (remove_from_cart ''3'' ''bob'' busy_shop)) =
     Some \<lparr>docs =
        [\<lparr>cart_id = ''c-2'', cart_user_id = ''someone_else'', cart_product_id = ''3'',
          cart_quantity = 7\<rparr>,
         \<lparr>cart_id = ''c-3'', cart_user_id = ''demo_user'', cart_product_id = ''8'',
          cart_quantity = 1\<rparr>,
         \<lparr>cart_id = ''c-4'', cart_user_id = ''demo_user'', cart_product_id = ''99'',
          cart_quantity = 4\<rparr>],
      fault = None\<rparr> \<and>
   get_orders ''alice'' archive =
     Body [\<lparr>order_id = ''o-8'', order_user_id = ''demo_user'',
             order_items = [\<lparr>line_product_id = ''5'', line_quantity = 3\<rparr>],
             order_status = ''confirmed'', order_created_at = ''2023-12-31T11:00:00''\<rparr>] \<and>
   get_cart ''alice'' busy_shop = get_cart ''bob'' busy_shop"
proof -
  let ?empty = "\<lparr>docs = ([] :: cart_doc list), fault = None\<rparr>"
  let ?cat = "\<lparr>docs = products, fault = None\<rparr>"
  let ?none = "\<lparr>docs = ([] :: order_doc list), fault = None\<rparr>"
  have h1: "cart_container empty_shop = Some ?empty \<and> fault ?empty = None \<and>
            distinct (map cart_id (docs ?empty)) \<and>
            length (filter (\<lambda>c. cart_user_id c = DEFAULT_USER \<and>
                                cart_product_id c = p_id (hd products)) (docs ?empty)) \<le> 1 \<and>
            ''c-1'' \<notin> set (map cart_id (docs ?empty)) \<and>
            products_container empty_shop = Some ?cat \<and> fault ?cat = None \<and>
            distinct (map p_id (docs ?cat)) \<and> hd products \<in> set (docs ?cat)"
    by (simp add: empty_shop_def products_def)
  have p1: "p_id (hd products) = ''1''"
    by (simp add: products_def)
  have h2: "orders_container busy_shop = Some ?none \<and> cart_container busy_shop = Some sample_cart \<and>
            fault ?none = None \<and> fault sample_cart = None \<and>
            distinct (map cart_id (docs sample_cart)) \<and>
            ''o-1'' \<notin> set (map order_id (docs ?none))"
    by (simp add: busy_shop_def sample_cart_def)
  have h3: "orders_container archive = Some (the (orders_container archive)) \<and>
            fault (the (orders_container archive)) = None"
    by (simp add: archive_def)
  have added: "snd (add_to_cart \<lparr>product_id = ''1'', quantity = 2\<rparr> ''alice'' ''c-1'' empty_shop) =
      empty_shop\<lparr>cart_container := Some
        \<lparr>docs = [\<lparr>cart_id = ''c-1'', cart_user_id = ''demo_user'', cart_product_id = ''1'',
                   cart_quantity = 2\<rparr>], fault = None\<rparr>\<rparr>"
    by (simp add: empty_shop_def add_to_cart_def query_items_def create_item_def DEFAULT_USER_def)
  have shown: "get_cart ''bob'' (empty_shop\<lparr>cart_container := Some
        \<lparr>docs = [\<lparr>cart_id = ''c-1'', cart_user_id = ''demo_user'', cart_product_id = ''1'',
                   cart_quantity = 2\<rparr>], fault = None\<rparr>\<rparr>) =
     Body [\<lparr>e_id = ''1'', e_name = ''Wireless Headphones Pro'', e_price = 19999,
             e_quantity = 2, e_image = [CHR 0xF0, CHR 0x9F, CHR 0x8E, CHR 0xA7],
             e_category = ''Electronics''\<rparr>]"
    by (simp add: empty_shop_def get_cart_def query_items_def products_def DEFAULT_USER_def)
  from h1 h2 h3 p1
    shared_cart_independent_of_principal [where st = empty_shop and cc = ?empty and pc = ?cat
      and p = "hd products" and q = 2 and ?u1.0 = "''alice''" and ?u2.0 = "''bob''"
      and ?uuid4.0 = "''c-1''"]
    shared_cart_independent_of_principal [where st = busy_shop and cc = sample_cart
      and oc = ?none and pid = "''3''" and ?u1.0 = "''bob''" and ?u2.0 = "''alice''"
      and ?uuid4.0 = "''o-1''" and utcnow = "''2024-01-01T00:00:00''"]
    shared_cart_independent_of_principal [where st = archive
      and oc = "the (orders_container archive)" and ?u1.0 = "''alice''"]
    shared_cart_independent_of_principal [where st = busy_shop and ?u1.0 = "''alice''"
      and ?u2.0 = "''bob''"]
  show ?thesis
    unfolding added shown
    by (clarsimp simp add: sample_cart_def archive_def DEFAULT_USER_def)
qed


section \<open>Adding the same product twice\<close>

text \<open>
  C4. On a reachable cart with distinct ids that holds at most one entry for the shared
  user and the product, two calls of \<open>add_to_cart\<close> for that product, with quantities
  \<open>q1\<close> then \<open>q2\<close> and nothing in between, both succeed and leave exactly one entry
  for the pair, of quantity \<open>q2\<close>; and when there was no entry before, the first call
  appends a single new entry of quantity \<open>q1\<close> (\<open>uuid1\<close> being an id not in use).
\<close>

theorem add_to_cart_overwrites:
  assumes "cart_container st = Some cc" and "fault cc = None"
    and "distinct (map cart_id (docs cc))"
    and "length (filter (\<lambda>c. cart_user_id c = DEFAULT_USER \<and> cart_product_id c = pid)
           (docs cc)) \<le> 1"
    and "uuid1 \<notin> set (map cart_id (docs cc))"
  shows "fst (add_to_cart \<lparr>product_id = pid, quantity = q1\<rparr> u1 uuid1 st) =
           Message ''Saved to Cosmos DB'' \<and>
         fst (add_to_cart \<lparr>product_id = pid, quantity = q2\<rparr> u2 uuid2
                (snd (add_to_cart \<lparr>product_id = pid, quantity = q1\<rparr> u1 uuid1 st))) =
           Message ''Saved to Cosmos DB'' \<and>
         (case cart_container
                 (snd (add_to_cart \<lparr>product_id = pid, quantity = q2\<rparr> u2 uuid2
                    (snd (add_to_cart \<lparr>product_id = pid, quantity = q1\<rparr> u1 uuid1 st)))) of
            None \<Rightarrow> False
          | Some cc2 \<Rightarrow>
              map cart_quantity
                (filter (\<lambda>c. cart_user_id c = DEFAULT_USER \<and> cart_product_id c = pid) (docs cc2))
              = [q2]) \<and>
         (filter (\<lambda>c. cart_user_id c = DEFAULT_USER \<and> cart_product_id c = pid) (docs cc) = [] \<longrightarrow>
            cart_container (snd (add_to_cart \<lparr>product_id = pid, quantity = q1\<rparr> u1 uuid1 st)) =
              Some (cc\<lparr>docs := docs cc @
                      [\<lparr>cart_id = uuid1, cart_user_id = DEFAULT_USER, cart_product_id = pid,
                        cart_quantity = q1\<rparr>]\<rparr>))"
proof -
  let ?P = "\<lambda>c. cart_user_id c = DEFAULT_USER \<and> cart_product_id c = pid"
  have fr: "filter ?P (docs cc) = [] \<longrightarrow> uuid1 \<notin> set (map cart_id (docs cc))"
    using assms(5) by simp
  from add_to_cart_step [OF assms(1-4) fr, where q = q1 and u = u1]
  obtain cc1 where all1:
    "add_to_cart \<lparr>product_id = pid, quantity = q1\<rparr> u1 uuid1 st =
           (Message ''Saved to Cosmos DB'', st\<lparr>cart_container := Some cc1\<rparr>) \<and>
     fault cc1 = None \<and> distinct (map cart_id (docs cc1)) \<and>
     map cart_quantity (filter ?P (docs cc1)) = [q1] \<and>
     (filter ?P (docs cc) = [] \<longrightarrow> docs cc1 = docs cc @
                 [\<lparr>cart_id = uuid1, cart_user_id = DEFAULT_USER, cart_product_id = pid,
                   cart_quantity = q1\<rparr>])" ..
  then have r1: "add_to_cart \<lparr>product_id = pid, quantity = q1\<rparr> u1 uuid1 st =
           (Message ''Saved to Cosmos DB'', st\<lparr>cart_container := Some cc1\<rparr>)"
    and ok1: "fault cc1 = None" and ids1: "distinct (map cart_id (docs cc1))"
    and one1: "map cart_quantity (filter ?P (docs cc1)) = [q1]"
    and new1: "filter ?P (docs cc) = [] \<longrightarrow> docs cc1 = docs cc @
                 [\<lparr>cart_id = uuid1, cart_user_id = DEFAULT_USER, cart_product_id = pid,
                   cart_quantity = q1\<rparr>]"
    by blast+
  let ?st1 = "st\<lparr>cart_container := Some cc1\<rparr>"
  have c1: "cart_container ?st1 = Some cc1" by simp
  from one1 have len1: "length (filter ?P (docs cc1)) = 1"
    by (metis length_map length_Cons list.size(3) One_nat_def)
  then have le1: "length (filter ?P (docs cc1)) \<le> 1"
    and ne1: "filter ?P (docs cc1) = [] \<longrightarrow> uuid2 \<notin> set (map cart_id (docs cc1))"
    by auto
  from add_to_cart_step [OF c1 ok1 ids1 le1 ne1, where q = q2 and u = u2]
  obtain cc2 where all2:
    "add_to_cart \<lparr>product_id = pid, quantity = q2\<rparr> u2 uuid2 ?st1 =
           (Message ''Saved to Cosmos DB'', ?st1\<lparr>cart_container := Some cc2\<rparr>) \<and>
     fault cc2 = None \<and> distinct (map cart_id (docs cc2)) \<and>
     map cart_quantity (filter ?P (docs cc2)) = [q2] \<and>
     (filter ?P (docs cc1) = [] \<longrightarrow> docs cc2 = docs cc1 @
                 [\<lparr>cart_id = uuid2, cart_user_id = DEFAULT_USER, cart_product_id = pid,
                   cart_quantity = q2\<rparr>])" ..
  then have r2: "add_to_cart \<lparr>product_id = pid, quantity = q2\<rparr> u2 uuid2 ?st1 =
           (Message ''Saved to Cosmos DB'', ?st1\<lparr>cart_container := Some cc2\<rparr>)"
    and one2: "map cart_quantity (filter ?P (docs cc2)) = [q2]"
    by blast+
  have new: "cc1 = cc\<lparr>docs := docs cc @ [\<lparr>cart_id = uuid1, cart_user_id = DEFAULT_USER,
                                          cart_product_id = pid, cart_quantity = q1\<rparr>]\<rparr>"
    if "filter ?P (docs cc) = []"
    using that new1 assms(2) ok1 by simp
  show ?thesis
    using new by (simp add: r1 r2 one2)
qed

text \<open>Quantity 2 then 5 for product 1 on the empty cart, and quantity 5 then 9 for
  product 3, which the sample cart already holds with quantity 2.\<close>

theorem add_to_cart_overwrites_witness:
  "fst (add_to_cart \<lparr>product_id = ''1'', quantity = 2\<rparr> ''demo'' ''c-1'' empty_shop) =
     Message ''Saved to Cosmos DB'' \<and>
   cart_container
     (snd (add_to_cart \<lparr>product_id = ''1'', quantity = 5\<rparr> ''demo'' ''c-2''
        (snd (add_to_cart \<lparr>product_id = ''1'', quantity = 2\<rparr> ''demo'' ''c-1'' empty_shop)))) =
     Some \<lparr>docs = [\<lparr>cart_id = ''c-1'', cart_user_id = ''demo_user'', cart_product_id = ''1'',
                     cart_quantity = 5\<rparr>], fault = None\<rparr> \<and>
   cart_container
     (snd (add_to_cart \<lparr>product_id = ''3'', quantity = 9\<rparr> ''demo'' ''c-6''
        (snd (add_to_cart \<lparr>product_id = ''3'', quantity = 5\<rparr> ''demo'' ''c-5'' busy_shop)))) =
     Some \<lparr>docs =
        [\<lparr>cart_id = ''c-1'', cart_user_id = ''demo_user'', cart_product_id = ''3'',
          cart_quantity = 9\<rparr>,
         \<lparr>cart_id = ''c-2'', cart_user_id = ''someone_else'', cart_product_id = ''3'',
          cart_quantity = 7\<rparr>,
         \<lparr>cart_id = ''c-3'', cart_user_id = ''demo_user'', cart_product_id = ''8'',
          cart_quantity = 1\<rparr>,
         \<lparr>cart_id = ''c-4'', cart_user_id = ''demo_user'', cart_product_id = ''99'',
          cart_quantity = 4\<rparr>],
      fault = None\<rparr>"
proof -
  have h: "cart_container empty_shop = Some \<lparr>docs = [], fault = None\<rparr>"
    "fault \<lparr>docs = ([] :: cart_doc list), fault = None\<rparr> = None"
    "distinct (map cart_id (docs \<lparr>docs = ([] :: cart_doc list), fault = None\<rparr>))"
    "length (filter (\<lambda>c. cart_user_id c = DEFAULT_USER \<and> cart_product_id c = ''1'')
       (docs \<lparr>docs = ([] :: cart_doc list), fault = None\<rparr>)) \<le> 1"
    "''c-1'' \<notin> set (map cart_id (docs \<lparr>docs = ([] :: cart_doc list), fault = None\<rparr>))"
    by (simp_all add: empty_shop_def)
  have k: "cart_container busy_shop = Some sample_cart"
    "fault sample_cart = None"
    "distinct (map cart_id (docs sample_cart))"
    "length (filter (\<lambda>c. cart_user_id c = DEFAULT_USER \<and> cart_product_id c = ''3'')
       (docs sample_cart)) \<le> 1"
    "''c-5'' \<notin> set (map cart_id (docs sample_cart))"
    by (simp_all add: busy_shop_def sample_cart_def DEFAULT_USER_def)
  have first: "snd (add_to_cart \<lparr>product_id = ''1'', quantity = 2\<rparr> ''demo'' ''c-1'' empty_shop) =
      empty_shop\<lparr>cart_container := Some
        \<lparr>docs = [\<lparr>cart_id = ''c-1'', cart_user_id = ''demo_user'', cart_product_id = ''1'',
                   cart_quantity = 2\<rparr>], fault = None\<rparr>\<rparr>"
    by (simp add: empty_shop_def add_to_cart_def query_items_def create_item_def DEFAULT_USER_def)
  have second: "snd (add_to_cart \<lparr>product_id = ''3'', quantity = 5\<rparr> ''demo'' ''c-5'' busy_shop) =
      busy_shop\<lparr>cart_container := Some
        \<lparr>docs =
          [\<lparr>cart_id = ''c-1'', cart_user_id = ''demo_user'', cart_product_id = ''3'',
            cart_quantity = 5\<rparr>,
           \<lparr>cart_id = ''c-2'', cart_user_id = ''someone_else'', cart_product_id = ''3'',
            cart_quantity = 7\<rparr>,
           \<lparr>cart_id = ''c-3'', cart_user_id = ''demo_user'', cart_product_id = ''8'',
            cart_quantity = 1\<rparr>,
           \<lparr>cart_id = ''c-4'', cart_user_id = ''demo_user'', cart_product_id = ''99'',
            cart_quantity = 4\<rparr>],
         fault = None\<rparr>\<rparr>"
    by (simp add: busy_shop_def sample_cart_def add_to_cart_def query_items_def upsert_item_def
          DEFAULT_USER_def)
  from add_to_cart_overwrites [OF h, where ?q1.0 = 2 and ?u1.0 = "''demo''" and ?q2.0 = 5
      and ?u2.0 = "''demo''" and ?uuid2.0 = "''c-2''"]
    add_to_cart_overwrites [OF k, where ?q1.0 = 5 and ?u1.0 = "''demo''" and ?q2.0 = 9
      and ?u2.0 = "''demo''" and ?uuid2.0 = "''c-6''"]
  show ?thesis
    unfolding first second
    by (simp add: add_to_cart_def query_items_def upsert_item_def DEFAULT_USER_def)
qed

section \<open>Removing from the cart\<close>

text \<open>
  C8. On a reachable cart with distinct ids, \<open>remove_from_cart\<close> succeeds and deletes
  exactly the entries of the shared user for the product, keeping every other entry;
  and when no entry matches, the call succeeds and the store is unchanged.
\<close>

theorem remove_from_cart_deletes_matching:
  "(cart_container st = Some cc \<and> fault cc = None \<and> distinct (map cart_id (docs cc)) \<longrightarrow>
      remove_from_cart pid u st =
        (Message ''Removed from Cosmos DB'',
         st\<lparr>cart_container := Some (cc\<lparr>docs :=
              filter (\<lambda>c. \<not> (cart_user_id c = DEFAULT_USER \<and> cart_product_id c = pid))
                (docs cc)\<rparr>)\<rparr>)) \<and>
   (cart_container st = Some cc \<and> fault cc = None \<and>
    (\<forall>c \<in> set (docs cc). \<not> (cart_user_id c = DEFAULT_USER \<and> cart_product_id c = pid)) \<longrightarrow>
      remove_from_cart pid u st = (Message ''Removed from Cosmos DB'', st))"
proof (intro conjI impI)
  assume a: "cart_container st = Some cc \<and> fault cc = None \<and> distinct (map cart_id (docs cc))"
  let ?P = "\<lambda>c. cart_user_id c = DEFAULT_USER \<and> cart_product_id c = pid"
  have "delete_loop (filter ?P (docs cc)) cc = (None, cc\<lparr>docs := filter (\<lambda>d. \<not> ?P d) (docs cc)\<rparr>)"
    using a by (intro delete_loop_query) simp_all
  with a show "remove_from_cart pid u st =
        (Message ''Removed from Cosmos DB'',
         st\<lparr>cart_container := Some (cc\<lparr>docs := filter (\<lambda>c. \<not> ?P c) (docs cc)\<rparr>)\<rparr>)"
    by (simp add: remove_from_cart_def query_items_def)
next
  assume a: "cart_container st = Some cc \<and> fault cc = None \<and>
    (\<forall>c \<in> set (docs cc). \<not> (cart_user_id c = DEFAULT_USER \<and> cart_product_id c = pid))"
  then have "filter (\<lambda>c. cart_user_id c = DEFAULT_USER \<and> cart_product_id c = pid) (docs cc) = []"
    by (simp add: filter_empty_conv)
  moreover have "st\<lparr>cart_container := Some cc\<rparr> = st"
    using a by simp
  ultimately show "remove_from_cart pid u st = (Message ''Removed from Cosmos DB'', st)"
    using a by (simp add: remove_from_cart_def query_items_def)
qed


theorem remove_from_cart_deletes_matching_witness:
  "remove_from_cart ''3'' ''demo'' busy_shop =
     (Message ''Removed from Cosmos DB'',
      busy_shop\<lparr>cart_container := Some
        \<lparr>docs = [\<lparr>cart_id = ''c-2'', cart_user_id = ''someone_else'', cart_product_id = ''3'',
                   cart_quantity = 7\<rparr>,
                  \<lparr>cart_id = ''c-3'', cart_user_id = ''demo_user'', cart_product_id = ''8'',
                   cart_quantity = 1\<rparr>,
                  \<lparr>cart_id = ''c-4'', cart_user_id = ''demo_user'', cart_product_id = ''99'',
                   cart_quantity = 4\<rparr>],
         fault = None\<rparr>\<rparr>) \<and>
   remove_from_cart ''5'' ''demo'' busy_shop = (Message ''Removed from Cosmos DB'', busy_shop)"
proof -
  have h1: "cart_container busy_shop = Some sample_cart \<and> fault sample_cart = None \<and>
            distinct (map cart_id (docs sample_cart))"
    by (simp add: busy_shop_def sample_cart_def)
  have h2: "cart_container busy_shop = Some sample_cart \<and> fault sample_cart = None \<and>
            (\<forall>c \<in> set (docs sample_cart).
               \<not> (cart_user_id c = DEFAULT_USER \<and> cart_product_id c = ''5''))"
    by (simp add: busy_shop_def sample_cart_def)
  from h1 h2
    remove_from_cart_deletes_matching [where st = busy_shop and cc = sample_cart
      and pid = "''3''" and u = "''demo''"]
    remove_from_cart_deletes_matching [where st = busy_shop and cc = sample_cart
      and pid = "''5''" and u = "''demo''"]
  show ?thesis
    by (simp add: sample_cart_def DEFAULT_USER_def)
qed

section \<open>Placing an order\<close>

text \<open>
  C5. With both containers reachable, distinct cart ids, an order id \<open>uuid4\<close> not in use
  and a cart of N > 0 entries of the shared user, \<open>create_order\<close> returns an order of
  exactly N line items, each the product id and quantity of one entry (the line type has
  no price), with id \<open>uuid4\<close>, the timestamp \<open>utcnow\<close> and status "confirmed"; the order
  is appended to the orders container, all N entries are deleted, and \<open>get_cart\<close> on
  the resulting store returns the empty list.
\<close>

theorem create_order_from_cart:
  assumes "orders_container st = Some oc" and "cart_container st = Some cc"
    and "fault oc = None" and "fault cc = None"
    and "distinct (map cart_id (docs cc))"
    and "uuid4 \<notin> set (map order_id (docs oc))"
    and "cart_items = filter (\<lambda>c. cart_user_id c = DEFAULT_USER) (docs cc)"
    and "cart_items \<noteq> []"
    and "order =
           \<lparr>order_id = uuid4, order_user_id = DEFAULT_USER,
            order_items = map (\<lambda>i. \<lparr>line_product_id = cart_product_id i,
                                      line_quantity = cart_quantity i\<rparr>) cart_items,
            order_status = ''confirmed'', order_created_at = utcnow\<rparr>"
  shows "create_order u uuid4 utcnow st =
           (Body order,
            st\<lparr>orders_container := Some (oc\<lparr>docs := docs oc @ [order]\<rparr>),
               cart_container := Some (cc\<lparr>docs :=
                 filter (\<lambda>c. cart_user_id c \<noteq> DEFAULT_USER) (docs cc)\<rparr>)\<rparr>) \<and>
         length (order_items order) = length cart_items \<and>
         order_id order \<notin> set (map order_id (docs oc)) \<and>
         get_cart u' (snd (create_order u uuid4 utcnow st)) = Body []"
proof -
  let ?cc' = "cc\<lparr>docs := filter (\<lambda>c. cart_user_id c \<noteq> DEFAULT_USER) (docs cc)\<rparr>"
  let ?st' = "st\<lparr>orders_container := Some (oc\<lparr>docs := docs oc @ [order]\<rparr>),
                 cart_container := Some ?cc'\<rparr>"
  have del: "delete_loop cart_items cc = (None, ?cc')"
    unfolding assms(7) using assms(4,5) by (intro delete_loop_query) simp_all
  have cre: "create_item order_id order oc = Inr (oc\<lparr>docs := docs oc @ [order]\<rparr>)"
    using assms(3,6,9) by (simp add: create_item_def)
  have run: "create_order u uuid4 utcnow st = (Body order, ?st')"
    using assms(1,2,4) del cre
    by (simp add: create_order_def query_items_def Let_def assms(7)[symmetric] assms(9)[symmetric])
  have "filter (\<lambda>c. cart_user_id c = DEFAULT_USER) (docs ?cc') = []"
    by (simp add: filter_empty_conv)
  then have "get_cart u' ?st' = Body []"
    using assms(4) by (simp add: get_cart_def query_items_def split: option.split)
  with run show ?thesis using assms(6,9) by simp
qed


theorem create_order_from_cart_witness:
  "create_order ''demo'' ''o-1'' ''2024-01-01T00:00:00'' busy_shop =
     (Body \<lparr>order_id = ''o-1'', order_user_id = ''demo_user'',
             order_items = [\<lparr>line_product_id = ''3'', line_quantity = 2\<rparr>,
                            \<lparr>line_product_id = ''8'', line_quantity = 1\<rparr>,
                            \<lparr>line_product_id = ''99'', line_quantity = 4\<rparr>],
             order_status = ''confirmed'', order_created_at = ''2024-01-01T00:00:00''\<rparr>,
      busy_shop
       \<lparr>orders_container := Some
          \<lparr>docs = [\<lparr>order_id = ''o-1'', order_user_id = ''demo_user'',
                     order_items = [\<lparr>line_product_id = ''3'', line_quantity = 2\<rparr>,
                                    \<lparr>line_product_id = ''8'', line_quantity = 1\<rparr>,
                                    \<lparr>line_product_id = ''99'', line_quantity = 4\<rparr>],
                     order_status = ''confirmed'',
                     order_created_at = ''2024-01-01T00:00:00''\<rparr>],
           fault = None\<rparr>,
        cart_container := Some
          \<lparr>docs = [\<lparr>cart_id = ''c-2'', cart_user_id = ''someone_else'',
                     cart_product_id = ''3'', cart_quantity = 7\<rparr>],
           fault = None\<rparr>\<rparr>) \<and>
   get_cart ''demo''
     (snd (create_order ''demo'' ''o-1'' ''2024-01-01T00:00:00'' busy_shop)) = Body []"
proof -
  let ?oc = "\<lparr>docs = ([] :: order_doc list), fault = None\<rparr>"
  let ?items = "[\<lparr>cart_id = ''c-1'', cart_user_id = ''demo_user'', cart_product_id = ''3'',
                  cart_quantity = 2\<rparr>,
                 \<lparr>cart_id = ''c-3'', cart_user_id = ''demo_user'', cart_product_id = ''8'',
                  cart_quantity = 1\<rparr>,
                 \<lparr>cart_id = ''c-4'', cart_user_id = ''demo_user'', cart_product_id = ''99'',
                  cart_quantity = 4\<rparr>]"
  let ?order = "\<lparr>order_id = ''o-1'', order_user_id = DEFAULT_USER,
                 order_items = map (\<lambda>i. \<lparr>line_product_id = cart_product_id i,
                                           line_quantity = cart_quantity i\<rparr>) ?items,
                 order_status = ''confirmed'', order_created_at = ''2024-01-01T00:00:00''\<rparr>"
  have h: "orders_container busy_shop = Some ?oc" "cart_container busy_shop = Some sample_cart"
    "fault ?oc = None" "fault sample_cart = None"
    "distinct (map cart_id (docs sample_cart))"
    "''o-1'' \<notin> set (map order_id (docs ?oc))"
    "?items = filter (\<lambda>c. cart_user_id c = DEFAULT_USER) (docs sample_cart)"
    "?items \<noteq> []"
    "?order = ?order"
    by (simp_all add: busy_shop_def sample_cart_def DEFAULT_USER_def)
  from create_order_from_cart [OF h, where u = "''demo''" and u' = "''demo''"]
  show ?thesis
    by (clarsimp simp add: sample_cart_def DEFAULT_USER_def)
qed

section \<open>The ids of the cart lines\<close>

text \<open>
  C10. Every line of a list that \<open>get_cart\<close> returns carries, as its \<^verbatim>\<open>id\<close>, the id
  of the product that a cart document of the shared user refers to; and the reply does
  not depend on the cart documents' own ids: replacing them by any others leaves it the
  same.
\<close>

theorem get_cart_line_ids:
  "(cart_container st = Some cc \<and> products_container st = Some pc \<and>
    get_cart u st = Body lines \<longrightarrow>
      (\<forall>l \<in> set lines. \<exists>item \<in> set (docs cc). \<exists>p \<in> set (docs pc).
          cart_user_id item = DEFAULT_USER \<and> p_id p = cart_product_id item \<and>
          e_id l = p_id p \<and> e_quantity l = cart_quantity item)) \<and>
   (cart_container st = Some cc \<longrightarrow>
      get_cart u (st\<lparr>cart_container :=
                     Some (cc\<lparr>docs := map (\<lambda>d. d\<lparr>cart_id := f d\<rparr>) (docs cc)\<rparr>)\<rparr>) =
      get_cart u st)"
proof (intro conjI impI)
  assume a: "cart_container st = Some cc \<and> products_container st = Some pc \<and>
             get_cart u st = Body lines"
  then have "enrich pc (filter (\<lambda>c. cart_user_id c = DEFAULT_USER) (docs cc)) = Inr lines"
    by (auto simp: get_cart_def query_items_def split: option.splits sum.splits)
  from enrich_lines [OF this]
  show "\<forall>l \<in> set lines. \<exists>item \<in> set (docs cc). \<exists>p \<in> set (docs pc).
          cart_user_id item = DEFAULT_USER \<and> p_id p = cart_product_id item \<and>
          e_id l = p_id p \<and> e_quantity l = cart_quantity item"
    by fastforce
next
  assume a: "cart_container st = Some cc"
  have "filter (\<lambda>c. cart_user_id c = DEFAULT_USER) (map (\<lambda>d. d\<lparr>cart_id := f d\<rparr>) (docs cc)) =
        map (\<lambda>d. d\<lparr>cart_id := f d\<rparr>) (filter (\<lambda>c. cart_user_id c = DEFAULT_USER) (docs cc))"
    by (simp add: filter_map comp_def)
  with a show "get_cart u (st\<lparr>cart_container :=
                     Some (cc\<lparr>docs := map (\<lambda>d. d\<lparr>cart_id := f d\<rparr>) (docs cc)\<rparr>)\<rparr>) =
      get_cart u st"
    by (simp add: get_cart_def query_items_def enrich_ignores_cart_id
          split: option.splits)
qed


text \<open>The sample cart: the lines carry the product ids 3 and 8, the cart documents
  have the ids c-1 to c-4, and the line for product 99, which no product has, is left
  out.\<close>

theorem get_cart_line_ids_witness:
  "get_cart ''demo'' busy_shop =
     Body [\<lparr>e_id = ''3'', e_name = ''Running Shoes X1'', e_price = 8999, e_quantity = 2,
             e_image = [CHR 0xF0, CHR 0x9F, CHR 0x91, CHR 0x9F], e_category = ''Sports''\<rparr>,
           \<lparr>e_id = ''8'', e_name = ''Desk Lamp LED'', e_price = 2999, e_quantity = 1,
             e_image = [CHR 0xF0, CHR 0x9F, CHR 0x92, CHR 0xA1], e_category = ''Home''\<rparr>] \<and>
   map cart_id (docs sample_cart) = [''c-1'', ''c-2'', ''c-3'', ''c-4''] \<and>
   map cart_product_id (docs sample_cart) = [''3'', ''3'', ''8'', ''99'']"
proof -
  let ?lines =
    "[\<lparr>e_id = ''3'', e_name = ''Running Shoes X1'', e_price = 8999, e_quantity = 2,
       e_image = [CHR 0xF0, CHR 0x9F, CHR 0x91, CHR 0x9F], e_category = ''Sports''\<rparr>,
      \<lparr>e_id = ''8'', e_name = ''Desk Lamp LED'', e_price = 2999, e_quantity = 1,
       e_image = [CHR 0xF0, CHR 0x9F, CHR 0x92, CHR 0xA1], e_category = ''Home''\<rparr>]"
  have run: "get_cart ''demo'' busy_shop = Body ?lines"
    by (simp add: get_cart_def busy_shop_def sample_cart_def products_def query_items_def
          DEFAULT_USER_def)
  have h: "cart_container busy_shop = Some sample_cart \<and>
           products_container busy_shop = Some \<lparr>docs = products, fault = None\<rparr> \<and>
           get_cart ''demo'' busy_shop = Body ?lines"
    using run by (simp add: busy_shop_def)
  from get_cart_line_ids [where st = busy_shop and cc = sample_cart and u = "''demo''"
      and pc = "\<lparr>docs = products, fault = None\<rparr>" and lines = ?lines] h run
  show ?thesis by (simp add: sample_cart_def)
qed

section \<open>Tokens\<close>

text \<open>
  C6. Let the library verify the token it signed for the claims of \<open>u\<close> with expiry
  \<open>issued + 3600\<close> back to those claims. Then the token that \<open>create_access_token\<close>
  issues for \<open>u\<close> at time \<open>issued\<close>, presented as a bearer token at any time up to
  its expiry 60 minutes later, yields exactly \<open>u\<close>; after the expiry it is rejected with
  401. A token that the library does not verify (malformed, or signed otherwise) is
  rejected with 401, and so is a token whose claim set has no \<^verbatim>\<open>sub\<close>.
\<close>

theorem token_verification:
  assumes "verify (sign \<lparr>claim_sub = Some u, claim_exp = Some (issued + 3600)\<rparr> JWT_SECRET_KEY)
             JWT_SECRET_KEY =
           Some \<lparr>claim_sub = Some u, claim_exp = Some (issued + 3600)\<rparr>"
  shows "(utcnow \<le> issued + 3600 \<longrightarrow>
            get_current_user verify utcnow
              (Some (''Bearer '' @ create_access_token sign issued
                       \<lparr>claim_sub = Some u, claim_exp = None\<rparr> None)) = Body u) \<and>
         (issued + 3600 < utcnow \<longrightarrow>
            get_current_user verify utcnow
              (Some (''Bearer '' @ create_access_token sign issued
                       \<lparr>claim_sub = Some u, claim_exp = None\<rparr> None)) =
            HTTPException 401 ''Invalid or expired token'') \<and>
         (verify token JWT_SECRET_KEY = None \<longrightarrow>
            get_current_user verify utcnow (Some (''Bearer '' @ token)) =
            HTTPException 401 ''Invalid or expired token'') \<and>
         (verify token JWT_SECRET_KEY = Some payload \<and> claim_sub payload = None \<longrightarrow>
            get_current_user verify utcnow (Some (''Bearer '' @ token)) =
            HTTPException 401
              (if (case claim_exp payload of Some e \<Rightarrow> e < utcnow | None \<Rightarrow> False)
               then ''Invalid or expired token'' else ''Invalid token payload''))"
proof -
  have bearer: "\<And>t. get_current_user verify utcnow (Some (''Bearer '' @ t)) =
      (case jwt_decode verify utcnow t JWT_SECRET_KEY of
         Inl e \<Rightarrow> HTTPException 401 ''Invalid or expired token''
       | Inr payload \<Rightarrow>
           (case claim_sub payload of
              None \<Rightarrow> HTTPException 401 ''Invalid token payload''
            | Some username \<Rightarrow> Body username))"
    by (simp add: get_current_user_def startswith_def split1_def)
  have tok: "create_access_token sign issued \<lparr>claim_sub = Some u, claim_exp = None\<rparr> None =
             sign \<lparr>claim_sub = Some u, claim_exp = Some (issued + 3600)\<rparr> JWT_SECRET_KEY"
    by (simp add: create_access_token_def jwt_encode_def ACCESS_TOKEN_EXPIRE_MINUTES_def)
  show ?thesis
    unfolding bearer tok using assms
    by (auto simp: jwt_decode_def split: option.splits)
qed


theorem token_verification_witness:
  "auth_login toy_sign 1000 ''demo'' ''demo123'' = Body ''header.payload.signature'' \<and>
   get_current_user toy_verify 2000 (Some ''Bearer header.payload.signature'') = Body ''demo'' \<and>
   get_current_user toy_verify 4600 (Some ''Bearer header.payload.signature'') = Body ''demo'' \<and>
   get_current_user toy_verify 4601 (Some ''Bearer header.payload.signature'') =
     HTTPException 401 ''Invalid or expired token'' \<and>
   get_current_user toy_verify 2000 (Some ''Bearer header.payload.tampered'') =
     HTTPException 401 ''Invalid or expired token'' \<and>
   get_current_user toy_verify 2000 (Some ''Bearer header.nosub.signature'') =
     HTTPException 401 ''Invalid token payload''"
proof -
  have lib: "toy_verify (toy_sign \<lparr>claim_sub = Some ''demo'', claim_exp = Some (1000 + 3600)\<rparr>
                 JWT_SECRET_KEY) JWT_SECRET_KEY =
             Some \<lparr>claim_sub = Some ''demo'', claim_exp = Some (1000 + 3600)\<rparr>"
    by (simp add: toy_verify_def toy_sign_def JWT_SECRET_KEY_def)
  have bad: "toy_verify ''header.payload.tampered'' JWT_SECRET_KEY = None"
    by (simp add: toy_verify_def JWT_SECRET_KEY_def)
  have nosub: "toy_verify ''header.nosub.signature'' JWT_SECRET_KEY =
                 Some \<lparr>claim_sub = None, claim_exp = None\<rparr> \<and>
               claim_sub \<lparr>claim_sub = None, claim_exp = None\<rparr> = None"
    by (simp add: toy_verify_def JWT_SECRET_KEY_def)
  have login: "auth_login toy_sign 1000 ''demo'' ''demo123'' = Body ''header.payload.signature''"
    by (simp add: auth_login_def DEMO_USERNAME_def DEMO_PASSWORD_def create_access_token_def
          jwt_encode_def toy_sign_def)
  have tok: "create_access_token toy_sign 1000 \<lparr>claim_sub = Some ''demo'', claim_exp = None\<rparr> None
             = ''header.payload.signature''"
    by (simp add: create_access_token_def jwt_encode_def toy_sign_def)
  from lib
    token_verification [where verify = toy_verify and sign = toy_sign and u = "''demo''"
      and issued = 1000 and utcnow = 2000 and token = "''header.payload.tampered''"]
    token_verification [where verify = toy_verify and sign = toy_sign and u = "''demo''"
      and issued = 1000 and utcnow = 4600]
    token_verification [where verify = toy_verify and sign = toy_sign and u = "''demo''"
      and issued = 1000 and utcnow = 4601]
    token_verification [where verify = toy_verify and sign = toy_sign and u = "''demo''"
      and issued = 1000 and utcnow = 2000 and token = "''header.nosub.signature''"
      and payload = "\<lparr>claim_sub = None, claim_exp = None\<rparr>"]
    bad nosub login tok
  show ?thesis by simp
qed

end
